theory Spec2Isabelle
  imports Complex_Main "HOL-Library.Word"
begin

section \<open>Values of the JavaScript runtime\<close>

text \<open>
  A JavaScript string is a sequence of UTF-16 code units, so a string is a list of
  16-bit words: the regular expression of \<open>parseEvaluation\<close> (no \<open>u\<close> flag) and
  \<open>JSON.parse\<close> both work unit by unit. \<open>str\<close> embeds an ASCII literal; the
  Japanese literals of the source are written out as their code units.
  A \<open>Buffer\<close> is a list of bytes.
\<close>

type_synonym jsstring = "16 word list"
type_synonym byte = "8 word"
type_synonym clientId = jsstring

definition str :: "string \<Rightarrow> jsstring" where
  "str s = map of_char s"

text \<open>
  What \<open>JSON.parse\<close> can return. An object is the list of its own properties in the
  order of their creation (JavaScript enumerates integer-like keys first; the order plays
  no part below). A number is held as the rational value of its
  literal: the sign of zero is dropped and the rounding to the nearest binary64 is not
  applied, except that a literal too small to be a nonzero binary64 is zero, which is
  what \<open>ToBoolean\<close> reads.
\<close>

datatype jsvalue =
    JNull
  | JBool bool
  | JNum rat
  | JStr jsstring
  | JArr "jsvalue list"
  | JObj "(jsstring \<times> jsvalue) list"

text \<open>A thrown value: an \<open>Error\<close> object with its \<open>message\<close>.\<close>

datatype error = Error jsstring

fun error_message :: "error \<Rightarrow> jsstring" where
  "error_message (Error m) = m"

text \<open>\<open>ToBoolean\<close>, on an optional value: \<open>None\<close> is \<open>undefined\<close>.\<close>

fun truthy :: "jsvalue option \<Rightarrow> bool" where
  "truthy None = False"
| "truthy (Some JNull) = False"
| "truthy (Some (JBool b)) = b"
| "truthy (Some (JNum n)) = (n \<noteq> 0)"
| "truthy (Some (JStr s)) = (s \<noteq> [])"
| "truthy (Some (JArr xs)) = True"
| "truthy (Some (JObj kvs)) = True"

text \<open>
  Property read \<open>v.k\<close> for a name \<open>k\<close> that no prototype defines (such as \<open>scores\<close>
  and \<open>comments\<close>): reading from \<open>null\<close> throws a \<open>TypeError\<close> (with the message
  of V8), an object gives its own property or \<open>undefined\<close>, every other value gives
  \<open>undefined\<close>.
\<close>

definition msg_cannot_read :: "string \<Rightarrow> jsstring \<Rightarrow> jsstring" where
  "msg_cannot_read what k =
     str ''Cannot read properties of '' @ str what @ str '' (reading '' @ [0x27] @ k @ [0x27]
       @ str '')''"

fun get_property :: "jsvalue \<Rightarrow> jsstring \<Rightarrow> error + jsvalue option" where
  "get_property JNull k = Inl (Error (msg_cannot_read ''null'' k))"
| "get_property (JObj kvs) k = Inr (map_of kvs k)"
| "get_property v k = Inr None"

text \<open>\<open>CreateDataProperty\<close>: an existing key keeps its place and takes the new value,
  a new key goes last.\<close>

fun set_property :: "jsstring \<Rightarrow> jsvalue \<Rightarrow> (jsstring \<times> jsvalue) list \<Rightarrow> (jsstring \<times> jsvalue) list" where
  "set_property k v [] = [(k, v)]"
| "set_property k v ((k', v') # kvs) =
     (if k' = k then (k, v) # kvs else (k', v') # set_property k v kvs)"

section \<open>Collaborators: the providers, the clock, the socket, the file system\<close>

datatype role = User | Assistant

record message =
  role :: role
  content :: jsstring

text \<open>An element of \<open>response.content\<close>: a text block, or a block of another type.\<close>

datatype content_block = TextBlock jsstring | OtherBlock

record create_params =
  model :: jsstring
  max_tokens :: nat
  system :: "jsstring option"
  messages :: "message list"

text \<open>A reading of the clock: \<open>Date.now()\<close> and \<open>new Date().toISOString()\<close>.\<close>

record date =
  millis :: nat
  isoString :: jsstring

text \<open>
  The environment of one handler run: what each provider answers to a request (\<open>Inl\<close> is
  a rejected promise), and what the clock shows at its n-th reading.
\<close>

record env =
  messages_create :: "create_params \<Rightarrow> error + content_block list"
  transcriptions_create :: "byte list \<Rightarrow> error + jsstring"
  speech_create :: "jsstring \<Rightarrow> error + byte list"
  clock :: "nat \<Rightarrow> date"

datatype call =
    TranscriptionsCreate "byte list"
  | MessagesCreate create_params
  | SpeechCreate jsstring

datatype event =
    Transcription jsstring jsstring
  | AiResponse jsstring jsstring
  | AiAudio jsstring
  | ProcessingError jsstring jsstring
  | EvaluationComplete jsvalue
  | EvaluationError jsstring
  | EvaluationResult jsvalue

fun event_name :: "event \<Rightarrow> string" where
  "event_name (Transcription text timestamp) = ''transcription''"
| "event_name (AiResponse msg timestamp) = ''ai-response''"
| "event_name (AiAudio audio) = ''ai-audio''"
| "event_name (ProcessingError msg err) = ''processing-error''"
| "event_name (EvaluationComplete evaluation) = ''evaluation-complete''"
| "event_name (EvaluationError err) = ''evaluation-error''"
| "event_name (EvaluationResult evaluation) = ''evaluation-result''"

text \<open>The \<open>error\<close> field of the payload of the two error events.\<close>

fun error_field :: "event \<Rightarrow> jsstring option" where
  "error_field (ProcessingError msg err) = Some err"
| "error_field (EvaluationError err) = Some err"
| "error_field ev = None"

text \<open>
  The state of the process and of what it acts on. The three maps are the private
  \<open>Map\<close>s of \<open>AudioGateway\<close>, \<open>ChatService\<close> and \<open>EvaluationService\<close>; \<open>files\<close>
  is the temp directory; \<open>emitted\<close> lists the events sent, with the socket they were
  sent on; \<open>calls\<close> lists the provider requests issued; \<open>clock_reads\<close> counts the
  readings of the clock. A handler run is modelled from its first statement to its last
  without another handler running at its \<open>await\<close>s.
\<close>

record world =
  audioBuffers :: "clientId \<rightharpoonup> byte list list"
  conversationHistory :: "clientId \<rightharpoonup> message list"
  evaluations :: "clientId \<rightharpoonup> jsvalue"
  files :: "jsstring \<rightharpoonup> byte list"
  emitted :: "(clientId \<times> event) list"
  calls :: "call list"
  clock_reads :: nat

definition emit :: "clientId \<Rightarrow> event \<Rightarrow> world \<Rightarrow> world" where
  "emit client ev w = w\<lparr>emitted := emitted w @ [(client, ev)]\<rparr>"

definition new_Date :: "env \<Rightarrow> world \<Rightarrow> date \<times> world" where
  "new_Date env w = (clock env (clock_reads w), w\<lparr>clock_reads := Suc (clock_reads w)\<rparr>)"

definition anthropic_messages_create ::
  "env \<Rightarrow> create_params \<Rightarrow> world \<Rightarrow> (error + content_block list) \<times> world" where
  "anthropic_messages_create env params w =
     (messages_create env params, w\<lparr>calls := calls w @ [MessagesCreate params]\<rparr>)"

definition openai_transcriptions_create ::
  "env \<Rightarrow> byte list \<Rightarrow> world \<Rightarrow> (error + jsstring) \<times> world" where
  "openai_transcriptions_create env file w =
     (transcriptions_create env file, w\<lparr>calls := calls w @ [TranscriptionsCreate file]\<rparr>)"

definition openai_speech_create ::
  "env \<Rightarrow> jsstring \<Rightarrow> world \<Rightarrow> (error + byte list) \<times> world" where
  "openai_speech_create env input w =
     (speech_create env input, w\<lparr>calls := calls w @ [SpeechCreate input]\<rparr>)"

section \<open>ChatService\<close>

definition getSystemPrompt :: jsstring where
  "getSystemPrompt =
   [0x3042, 0x306A, 0x305F, 0x306F, 0x63A1, 0x7528, 0x9762, 0x63A5, 0x5B98, 0x3067, 0x3059,
    0x3002, 0x000A, 0x000A, 0x3010, 0x9762, 0x63A5, 0x306E, 0x30EB, 0x30FC, 0x30EB, 0x3011,
    0x000A, 0x002D, 0x0020, 0x0031, 0x56DE, 0x306E, 0x5FDC, 0x7B54, 0x3067, 0x8CEA, 0x554F,
    0x306F, 0x0031, 0x3064, 0x3060, 0x3051, 0x000A, 0x002D, 0x0020, 0x8CEA, 0x554F, 0x306F,
    0x7C21, 0x6F54, 0x306B, 0xFF08, 0x0031, 0x002D, 0x0032, 0x6587, 0xFF09, 0x000A, 0x002D,
    0x0020, 0x5019, 0x88DC, 0x8005, 0x306E, 0x7D4C, 0x9A13, 0x30FB, 0x30B9, 0x30AD, 0x30EB,
    0x30FB, 0x4EBA, 0x67C4, 0x3092, 0x8A55, 0x4FA1, 0x3059, 0x308B, 0x000A, 0x002D, 0x0020,
    0x30D5, 0x30EC, 0x30F3, 0x30C9, 0x30EA, 0x30FC, 0x3060, 0x304C, 0x30D7, 0x30ED, 0x30D5,
    0x30A7, 0x30C3, 0x30B7, 0x30E7, 0x30CA, 0x30EB, 0x306B, 0x000A, 0x000A, 0x60AA, 0x3044,
    0x4F8B, 0x003A, 0x300C, 0x7D20, 0x6674, 0x3089, 0x3057, 0x3044, 0x3067, 0x3059, 0x306D,
    0xFF01, 0x3053, 0x308C, 0x307E, 0x3067, 0x306E, 0x7D4C, 0x9A13, 0x304B, 0x3089, 0x57F9,
    0x308F, 0x308C, 0x305F, 0x4E3B, 0x4F53, 0x6027, 0x3068, 0x554F, 0x984C, 0x89E3, 0x6C7A,
    0x529B, 0x306F, 0x002E, 0x002E, 0x002E, 0xFF08, 0x9577, 0x6587, 0xFF09, 0x300D, 0x000A,
    0x826F, 0x3044, 0x4F8B, 0x003A, 0x300C, 0x500B, 0x4EBA, 0x4E8B, 0x696D, 0x3067, 0x6700,
    0x3082, 0x82E6, 0x52B4, 0x3057, 0x305F, 0x3053, 0x3068, 0x306F, 0x4F55, 0x3067, 0x3059,
    0x304B, 0xFF1F, 0x300D]"

definition opening_instruction :: jsstring where
  "opening_instruction =
   [0x9762, 0x63A5, 0x3092, 0x958B, 0x59CB, 0x3057, 0x3066, 0x304F, 0x3060, 0x3055, 0x3044,
    0x3002]"

definition haiku :: jsstring where
  "haiku = str ''claude-3-haiku-20240307''"

text \<open>
  \<open>response.content[0].type === 'text' ? response.content[0].text : ''\<close>: with an empty
  \<open>content\<close> the read of \<open>type\<close> from \<open>undefined\<close> throws a \<open>TypeError\<close>.
\<close>

fun first_text :: "content_block list \<Rightarrow> error + jsstring" where
  "first_text [] = Inl (Error (msg_cannot_read ''undefined'' (str ''type'')))"
| "first_text (TextBlock t # bs) = Inr t"
| "first_text (OtherBlock # bs) = Inr []"

definition getHistory :: "world \<Rightarrow> clientId \<Rightarrow> message list" where
  "getHistory w clientId =
     (case conversationHistory w clientId of None \<Rightarrow> [] | Some history \<Rightarrow> history)"

definition clearHistory :: "clientId \<Rightarrow> world \<Rightarrow> world" where
  "clearHistory clientId w = w\<lparr>conversationHistory := (conversationHistory w)(clientId := None)\<rparr>"

text \<open>
  \<open>history.push\<close> on the array held in the map under \<open>clientId\<close> (created empty when the
  key is absent).
\<close>

definition history_push :: "clientId \<Rightarrow> message \<Rightarrow> world \<Rightarrow> world" where
  "history_push clientId m w =
     w\<lparr>conversationHistory := (conversationHistory w)(clientId \<mapsto> getHistory w clientId @ [m])\<rparr>"

definition chat :: "env \<Rightarrow> clientId \<Rightarrow> jsstring \<Rightarrow> world \<Rightarrow> (error + jsstring) \<times> world" where
  "chat env clientId userMessage w =
     (let w1 = history_push clientId \<lparr>role = User, content = userMessage\<rparr> w;
          history = getHistory w1 clientId
      in case anthropic_messages_create env
                \<lparr>model = haiku, max_tokens = 500, system = Some getSystemPrompt,
                 messages = history\<rparr> w1 of
           (Inl error, w2) \<Rightarrow> (Inl error, w2)
         | (Inr response, w2) \<Rightarrow>
             (case first_text response of
                Inl error \<Rightarrow> (Inl error, w2)
              | Inr assistantMessage \<Rightarrow>
                  (Inr assistantMessage,
                   history_push clientId \<lparr>role = Assistant, content = assistantMessage\<rparr> w2)))"

definition startInterview :: "env \<Rightarrow> clientId \<Rightarrow> world \<Rightarrow> (error + jsstring) \<times> world" where
  "startInterview env clientId w =
     (let w1 = w\<lparr>conversationHistory :=
                   (conversationHistory w)(clientId \<mapsto> getHistory w clientId)\<rparr>
      in case anthropic_messages_create env
                \<lparr>model = haiku, max_tokens = 500, system = Some getSystemPrompt,
                 messages = [\<lparr>role = User, content = opening_instruction\<rparr>]\<rparr> w1 of
           (Inl error, w2) \<Rightarrow> (Inl error, w2)
         | (Inr response, w2) \<Rightarrow>
             (case first_text response of
                Inl error \<Rightarrow> (Inl error, w2)
              | Inr assistantMessage \<Rightarrow>
                  (Inr assistantMessage,
                   history_push clientId \<lparr>role = Assistant, content = assistantMessage\<rparr>
                     (history_push clientId \<lparr>role = User, content = opening_instruction\<rparr> w2))))"

text \<open>A caller that awaits one \<open>chat\<close> after the other, each in the environment of
  its time, and stops at the first rejection.\<close>

fun chats :: "clientId \<Rightarrow> (env \<times> jsstring) list \<Rightarrow> world \<Rightarrow> (error + jsstring list) \<times> world" where
  "chats clientId [] w = (Inr [], w)"
| "chats clientId ((env, userMessage) # rest) w =
     (case chat env clientId userMessage w of
        (Inl error, w1) \<Rightarrow> (Inl error, w1)
      | (Inr reply, w1) \<Rightarrow>
          (case chats clientId rest w1 of
             (Inl error, w2) \<Rightarrow> (Inl error, w2)
           | (Inr replies, w2) \<Rightarrow> (Inr (reply # replies), w2)))"

text \<open>The turns of \<open>n\<close> answered calls: each user message followed by its reply.\<close>

fun turns :: "jsstring list \<Rightarrow> jsstring list \<Rightarrow> message list" where
  "turns (u # us) (r # rs) =
     \<lparr>role = User, content = u\<rparr> # \<lparr>role = Assistant, content = r\<rparr> # turns us rs"
| "turns us rs = []"

section \<open>\<open>JSON.parse\<close>\<close>

text \<open>
  The parser of the runtime, on code units: a lexer for the tokens of the JSON grammar and
  a stack machine for arrays and objects. \<open>None\<close> is a thrown \<open>SyntaxError\<close>.
\<close>

definition is_ws :: "16 word \<Rightarrow> bool" where
  "is_ws c = (c = 0x09 \<or> c = 0x0A \<or> c = 0x0D \<or> c = 0x20)"

definition is_digit :: "16 word \<Rightarrow> bool" where
  "is_digit c = (0x30 \<le> c \<and> c \<le> 0x39)"

definition hex_digit :: "16 word \<Rightarrow> 16 word option" where
  "hex_digit c =
     (if 0x30 \<le> c \<and> c \<le> 0x39 then Some (c - 0x30)
      else if 0x61 \<le> c \<and> c \<le> 0x66 then Some (c - 0x57)
      else if 0x41 \<le> c \<and> c \<le> 0x46 then Some (c - 0x37)
      else None)"

fun hex4 :: "jsstring \<Rightarrow> 16 word option" where
  "hex4 [a, b, c, d] =
     (case (hex_digit a, hex_digit b, hex_digit c, hex_digit d) of
        (Some x, Some y, Some z, Some u) \<Rightarrow> Some (((x * 16 + y) * 16 + z) * 16 + u)
      | _ \<Rightarrow> None)"
| "hex4 cs = None"

text \<open>The character after a backslash, other than \<open>u\<close>: \<open>" \ / b f n r t\<close>.\<close>

definition unescape :: "16 word \<Rightarrow> 16 word option" where
  "unescape e =
     (if e = 0x22 \<or> e = 0x5C \<or> e = 0x2F then Some e
      else if e = 0x62 then Some 0x08
      else if e = 0x66 then Some 0x0C
      else if e = 0x6E then Some 0x0A
      else if e = 0x72 then Some 0x0D
      else if e = 0x74 then Some 0x09
      else None)"

text \<open>The rest of a string after its opening quote: its value, and what follows the
  closing quote.\<close>

fun lex_string :: "jsstring \<Rightarrow> (jsstring \<times> jsstring) option" where
  "lex_string [] = None"
| "lex_string (c # cs) =
     (if c = 0x22 then Some ([], cs)
      else if c = 0x5C then
        (case cs of
           [] \<Rightarrow> None
         | e # cs' \<Rightarrow>
             if e = 0x75 then
               (case hex4 (take 4 cs') of
                  None \<Rightarrow> None
                | Some u \<Rightarrow>
                    (case lex_string (drop 4 cs') of
                       None \<Rightarrow> None
                     | Some (s, rest) \<Rightarrow> Some (u # s, rest)))
             else
               (case unescape e of
                  None \<Rightarrow> None
                | Some x \<Rightarrow>
                    (case lex_string cs' of
                       None \<Rightarrow> None
                     | Some (s, rest) \<Rightarrow> Some (x # s, rest))))
      else if c < 0x20 then None
      else (case lex_string cs of
              None \<Rightarrow> None
            | Some (s, rest) \<Rightarrow> Some (c # s, rest)))"

definition digits_value :: "jsstring \<Rightarrow> nat" where
  "digits_value ds = foldl (\<lambda>n d. 10 * n + unat (d - 0x30)) 0 ds"

definition all_digits :: "jsstring \<Rightarrow> bool" where
  "all_digits ds = (ds \<noteq> [] \<and> list_all is_digit ds)"

text \<open>The exponent part of a number, empty or \<open>[eE][+-]?[0-9]+\<close>.\<close>

fun exponent_part :: "jsstring \<Rightarrow> int option" where
  "exponent_part [] = Some 0"
| "exponent_part (c # r) =
     (if c = 0x65 \<or> c = 0x45 then
        (case r of
           [] \<Rightarrow> None
         | s # ds \<Rightarrow>
             if s = 0x2B then (if all_digits ds then Some (int (digits_value ds)) else None)
             else if s = 0x2D then (if all_digits ds then Some (- int (digits_value ds)) else None)
             else if all_digits r then Some (int (digits_value r)) else None)
      else None)"

text \<open>The fraction part, empty or \<open>.[0-9]+\<close>: its digits and what follows them.\<close>

fun fraction_part :: "jsstring \<Rightarrow> (jsstring \<times> jsstring) option" where
  "fraction_part [] = Some ([], [])"
| "fraction_part (c # r) =
     (if c = 0x2E then
        (if takeWhile is_digit r = [] then None
         else Some (takeWhile is_digit r, dropWhile is_digit r))
      else Some ([], c # r))"

definition scale10 :: "nat \<Rightarrow> int \<Rightarrow> rat" where
  "scale10 m e = (if 0 \<le> e then of_nat m * 10 ^ nat e else of_nat m / 10 ^ nat (- e))"

text \<open>
  The value of a number literal \<open>-?(0|[1-9][0-9]*)(.[0-9]+)?([eE][+-]?[0-9]+)?\<close>.
  A literal at most half the least positive binary64 is zero.
\<close>

definition number_literal :: "jsstring \<Rightarrow> rat option" where
  "number_literal lit =
     (let negative = (lit \<noteq> [] \<and> hd lit = 0x2D);
          r0 = (if negative then tl lit else lit);
          ip = takeWhile is_digit r0
      in if ip = [] \<or> (hd ip = 0x30 \<and> length ip > 1) then None
         else
           (case fraction_part (dropWhile is_digit r0) of
              None \<Rightarrow> None
            | Some (fp, r1) \<Rightarrow>
                (case exponent_part r1 of
                   None \<Rightarrow> None
                 | Some e \<Rightarrow>
                     (let v = scale10 (digits_value (ip @ fp)) (e - int (length fp))
                      in Some (if v \<le> 1 / 2 ^ 1075 then 0 else if negative then - v else v)))))"

datatype token =
    TLBrace | TRBrace | TLBracket | TRBracket | TColon | TComma
  | TString jsstring
  | TScalar jsvalue

definition is_number_char :: "16 word \<Rightarrow> bool" where
  "is_number_char c = (is_digit c \<or> c = 0x2B \<or> c = 0x2D \<or> c = 0x2E \<or> c = 0x65 \<or> c = 0x45)"

definition cons_token :: "token \<Rightarrow> token list option \<Rightarrow> token list option" where
  "cons_token t r = (case r of None \<Rightarrow> None | Some ts \<Rightarrow> Some (t # ts))"

lemma lex_string_shorter: "lex_string cs = Some (s, rest) \<Longrightarrow> length rest < length cs"
proof (induction cs arbitrary: s rest rule: lex_string.induct)
  case 1
  then show ?case by simp
next
  case (2 c cs)
  show ?case
  proof (cases "c = 0x22")
    case True
    with "2.prems" show ?thesis by simp
  next
    case quote: False
    show ?thesis
    proof (cases "c = 0x5C")
      case True
      with quote "2.prems" "2.IH"(1,2) show ?thesis
        by (fastforce split: list.splits option.splits if_splits)
    next
      case False
      with quote "2.prems" "2.IH"(3) show ?thesis
        by (fastforce split: option.splits if_splits)
    qed
  qed
qed

text \<open>
  A number token is the longest run of number characters: none of them can follow a
  number in a JSON text, so a longer run than the literal is a syntax error either way.
\<close>

function (sequential) lex :: "jsstring \<Rightarrow> token list option" where
  "lex [] = Some []"
| "lex (c # cs) =
     (if is_ws c then lex cs
      else if c = 0x7B then cons_token TLBrace (lex cs)
      else if c = 0x7D then cons_token TRBrace (lex cs)
      else if c = 0x5B then cons_token TLBracket (lex cs)
      else if c = 0x5D then cons_token TRBracket (lex cs)
      else if c = 0x3A then cons_token TColon (lex cs)
      else if c = 0x2C then cons_token TComma (lex cs)
      else if c = 0x22 then
        (case lex_string cs of
           None \<Rightarrow> None
         | Some (s, rest) \<Rightarrow> cons_token (TString s) (lex rest))
      else if c = 0x2D \<or> is_digit c then
        (case number_literal (c # takeWhile is_number_char cs) of
           None \<Rightarrow> None
         | Some n \<Rightarrow> cons_token (TScalar (JNum n)) (lex (dropWhile is_number_char cs)))
      else if take 4 (c # cs) = str ''true'' then
        cons_token (TScalar (JBool True)) (lex (drop 3 cs))
      else if take 5 (c # cs) = str ''false'' then
        cons_token (TScalar (JBool False)) (lex (drop 4 cs))
      else if take 4 (c # cs) = str ''null'' then
        cons_token (TScalar JNull) (lex (drop 3 cs))
      else None)"
  by pat_completeness auto
termination
proof (relation "measure length")
  show "wf (measure length)" by simp
next
  fix c cs x2 s rest
  assume "lex_string cs = Some x2" and "(s, rest) = x2"
  then have "length rest < length cs" using lex_string_shorter [of cs s rest] by simp
  then show "(rest, c # cs) \<in> measure length" by simp
next
  fix c cs n
  have "length (dropWhile is_number_char cs) \<le> length cs" by (rule length_dropWhile_le)
  then show "(dropWhile is_number_char cs, c # cs) \<in> measure length" by simp
qed simp_all

datatype frame =
    InArray "jsvalue list"
  | InObject "(jsstring \<times> jsvalue) list" jsstring

datatype expect = Value | ValueOrClose | KeyOrClose | Key | Colon | CommaOrClose | End jsvalue

text \<open>A value is complete: it is the result, or an element of the array being read, or
  the value of the pending key of the object being read.\<close>

fun complete :: "jsvalue \<Rightarrow> frame list \<Rightarrow> expect \<times> frame list" where
  "complete v [] = (End v, [])"
| "complete v (InArray xs # fs) = (CommaOrClose, InArray (xs @ [v]) # fs)"
| "complete v (InObject kvs k # fs) = (CommaOrClose, InObject (set_property k v kvs) k # fs)"

fun open_value :: "token \<Rightarrow> frame list \<Rightarrow> (expect \<times> frame list) option" where
  "open_value TLBracket fs = Some (ValueOrClose, InArray [] # fs)"
| "open_value TLBrace fs = Some (KeyOrClose, InObject [] [] # fs)"
| "open_value (TString s) fs = Some (complete (JStr s) fs)"
| "open_value (TScalar v) fs = Some (complete v fs)"
| "open_value t fs = None"

fun close_value :: "token \<Rightarrow> frame list \<Rightarrow> (expect \<times> frame list) option" where
  "close_value TRBracket (InArray xs # fs) = Some (complete (JArr xs) fs)"
| "close_value TRBrace (InObject kvs k # fs) = Some (complete (JObj kvs) fs)"
| "close_value t fs = None"

fun read_key :: "token \<Rightarrow> frame list \<Rightarrow> (expect \<times> frame list) option" where
  "read_key (TString k) (InObject kvs k' # fs) = Some (Colon, InObject kvs k # fs)"
| "read_key t fs = None"

fun after_comma :: "frame list \<Rightarrow> (expect \<times> frame list) option" where
  "after_comma (InArray xs # fs) = Some (Value, InArray xs # fs)"
| "after_comma (InObject kvs k # fs) = Some (Key, InObject kvs k # fs)"
| "after_comma [] = None"

fun step :: "expect \<Rightarrow> token \<Rightarrow> frame list \<Rightarrow> (expect \<times> frame list) option" where
  "step Value t fs = open_value t fs"
| "step ValueOrClose t fs = (if t = TRBracket then close_value t fs else open_value t fs)"
| "step KeyOrClose t fs = (if t = TRBrace then close_value t fs else read_key t fs)"
| "step Key t fs = read_key t fs"
| "step Colon t fs = (if t = TColon then Some (Value, fs) else None)"
| "step CommaOrClose t fs = (if t = TComma then after_comma fs else close_value t fs)"
| "step (End v) t fs = None"

fun run :: "token list \<Rightarrow> expect \<Rightarrow> frame list \<Rightarrow> jsvalue option" where
  "run [] e fs = (case e of End v \<Rightarrow> Some v | _ \<Rightarrow> None)"
| "run (t # ts) e fs =
     (case step e t fs of None \<Rightarrow> None | Some (e', fs') \<Rightarrow> run ts e' fs')"

definition JSON_parse :: "jsstring \<Rightarrow> jsvalue option" where
  "JSON_parse text = (case lex text of None \<Rightarrow> None | Some ts \<Rightarrow> run ts Value [])"


section \<open>EvaluationService\<close>

definition msg_evaluation_failed :: jsstring where
  "msg_evaluation_failed =
   [0x8A55, 0x4FA1, 0x306E, 0x751F, 0x6210, 0x306B, 0x5931, 0x6557, 0x3057, 0x307E, 0x3057,
    0x305F]"

definition msg_no_json :: jsstring where
  "msg_no_json =
   [0x004A, 0x0053, 0x004F, 0x004E, 0x5F62, 0x5F0F, 0x306E, 0x8A55, 0x4FA1, 0x304C, 0x898B,
    0x3064, 0x304B, 0x308A, 0x307E, 0x305B, 0x3093]"

definition msg_incomplete :: jsstring where
  "msg_incomplete =
   [0x8A55, 0x4FA1, 0x30C7, 0x30FC, 0x30BF, 0x304C, 0x4E0D, 0x5B8C, 0x5168, 0x3067, 0x3059]"

definition msg_fallback_strength :: jsstring where
  "msg_fallback_strength =
   [0x8A55, 0x4FA1, 0x30C7, 0x30FC, 0x30BF, 0x306E, 0x751F, 0x6210, 0x306B, 0x5931, 0x6557,
    0x3057, 0x307E, 0x3057, 0x305F]"

definition msg_fallback_summary :: jsstring where
  "msg_fallback_summary =
   [0x8A55, 0x4FA1, 0x3092, 0x518D, 0x8A66, 0x884C, 0x3057, 0x3066, 0x304F, 0x3060, 0x3055,
    0x3044]"

definition label_interviewer :: jsstring where
  "label_interviewer =
   [0x9762, 0x63A5, 0x5B98]"

definition label_candidate :: jsstring where
  "label_candidate =
   [0x5019, 0x88DC, 0x8005]"

definition prompt_head :: jsstring where
  "prompt_head =
   [0x000A, 0x4EE5, 0x4E0B, 0x306F, 0x9762, 0x63A5, 0x306E, 0x4F1A, 0x8A71, 0x5C65, 0x6B74,
    0x3067, 0x3059, 0x3002, 0x3053, 0x306E, 0x5019, 0x88DC, 0x8005, 0x3092, 0x4EE5, 0x4E0B,
    0x306E, 0x0035, 0x9805, 0x76EE, 0x3067, 0x8A55, 0x4FA1, 0x3057, 0x3066, 0x304F, 0x3060,
    0x3055, 0x3044, 0x3002, 0x000A, 0x000A, 0x3010, 0x4F1A, 0x8A71, 0x5C65, 0x6B74, 0x3011,
    0x000A]"

definition prompt_tail :: jsstring where
  "prompt_tail =
   [0x000A, 0x000A, 0x3010, 0x8A55, 0x4FA1, 0x9805, 0x76EE, 0x3011, 0xFF08, 0x5404, 0x0031,
    0x002D, 0x0031, 0x0030, 0x70B9, 0xFF09, 0x000A, 0x0031, 0x002E, 0x0020, 0x30B3, 0x30DF,
    0x30E5, 0x30CB, 0x30B1, 0x30FC, 0x30B7, 0x30E7, 0x30F3, 0x80FD, 0x529B, 0x003A, 0x0020,
    0x8CEA, 0x554F, 0x3078, 0x306E, 0x7684, 0x78BA, 0x306A, 0x56DE, 0x7B54, 0x3001, 0x8AD6,
    0x7406, 0x7684, 0x306A, 0x8AAC, 0x660E, 0x3001, 0x805E, 0x304D, 0x53D6, 0x308A, 0x3084,
    0x3059, 0x3055, 0x000A, 0x0032, 0x002E, 0x0020, 0x6280, 0x8853, 0x30B9, 0x30AD, 0x30EB,
    0x30FB, 0x5C02, 0x9580, 0x77E5, 0x8B58, 0x003A, 0x0020, 0x696D, 0x754C, 0x77E5, 0x8B58,
    0x306E, 0x6DF1, 0x3055, 0x3001, 0x5177, 0x4F53, 0x4F8B, 0x306E, 0x8C4A, 0x5BCC, 0x3055,
    0x000A, 0x0033, 0x002E, 0x0020, 0x71B1, 0x610F, 0x30FB, 0x30E2, 0x30C1, 0x30D9, 0x30FC,
    0x30B7, 0x30E7, 0x30F3, 0x003A, 0x0020, 0x5FD7, 0x671B, 0x52D5, 0x6A5F, 0x306E, 0x660E,
    0x78BA, 0x3055, 0x3001, 0x30AD, 0x30E3, 0x30EA, 0x30A2, 0x30D3, 0x30B8, 0x30E7, 0x30F3,
    0x000A, 0x0034, 0x002E, 0x0020, 0x554F, 0x984C, 0x89E3, 0x6C7A, 0x80FD, 0x529B, 0x003A,
    0x0020, 0x8AD6, 0x7406, 0x7684, 0x601D, 0x8003, 0x3001, 0x72B6, 0x6CC1, 0x5BFE, 0x5FDC,
    0x529B, 0x000A, 0x0035, 0x002E, 0x0020, 0x7DCF, 0x5408, 0x8A55, 0x4FA1, 0x003A, 0x0020,
    0x5168, 0x4F53, 0x7684, 0x306A, 0x5370, 0x8C61, 0x000A, 0x000A, 0x3010, 0x8A55, 0x4FA1,
    0x7D50, 0x679C, 0x306E, 0x5F62, 0x5F0F, 0x3011, 0x000A, 0x5FC5, 0x305A, 0x4EE5, 0x4E0B,
    0x306E, 0x004A, 0x0053, 0x004F, 0x004E, 0x5F62, 0x5F0F, 0x3067, 0x51FA, 0x529B, 0x3057,
    0x3066, 0x304F, 0x3060, 0x3055, 0x3044, 0x3002, 0x4ED6, 0x306E, 0x6587, 0x7AE0, 0x306F,
    0x4E0D, 0x8981, 0x3067, 0x3059, 0x3002, 0x000A, 0x000A, 0x007B, 0x000A, 0x0020, 0x0020,
    0x0022, 0x0073, 0x0063, 0x006F, 0x0072, 0x0065, 0x0073, 0x0022, 0x003A, 0x0020, 0x007B,
    0x000A, 0x0020, 0x0020, 0x0020, 0x0020, 0x0022, 0x0063, 0x006F, 0x006D, 0x006D, 0x0075,
    0x006E, 0x0069, 0x0063, 0x0061, 0x0074, 0x0069, 0x006F, 0x006E, 0x0022, 0x003A, 0x0020,
    0x0038, 0x002C, 0x000A, 0x0020, 0x0020, 0x0020, 0x0020, 0x0022, 0x0074, 0x0065, 0x0063,
    0x0068, 0x006E, 0x0069, 0x0063, 0x0061, 0x006C, 0x0022, 0x003A, 0x0020, 0x0037, 0x002C,
    0x000A, 0x0020, 0x0020, 0x0020, 0x0020, 0x0022, 0x006D, 0x006F, 0x0074, 0x0069, 0x0076,
    0x0061, 0x0074, 0x0069, 0x006F, 0x006E, 0x0022, 0x003A, 0x0020, 0x0039, 0x002C, 0x000A,
    0x0020, 0x0020, 0x0020, 0x0020, 0x0022, 0x0070, 0x0072, 0x006F, 0x0062, 0x006C, 0x0065,
    0x006D, 0x0053, 0x006F, 0x006C, 0x0076, 0x0069, 0x006E, 0x0067, 0x0022, 0x003A, 0x0020,
    0x0036, 0x002C, 0x000A, 0x0020, 0x0020, 0x0020, 0x0020, 0x0022, 0x006F, 0x0076, 0x0065,
    0x0072, 0x0061, 0x006C, 0x006C, 0x0022, 0x003A, 0x0020, 0x0037, 0x002E, 0x0035, 0x000A,
    0x0020, 0x0020, 0x007D, 0x002C, 0x000A, 0x0020, 0x0020, 0x0022, 0x0063, 0x006F, 0x006D,
    0x006D, 0x0065, 0x006E, 0x0074, 0x0073, 0x0022, 0x003A, 0x0020, 0x007B, 0x000A, 0x0020,
    0x0020, 0x0020, 0x0020, 0x0022, 0x0073, 0x0074, 0x0072, 0x0065, 0x006E, 0x0067, 0x0074,
    0x0068, 0x0073, 0x0022, 0x003A, 0x0020, 0x005B, 0x0022, 0x660E, 0x78BA, 0x306A, 0x30AD,
    0x30E3, 0x30EA, 0x30A2, 0x30D3, 0x30B8, 0x30E7, 0x30F3, 0x304C, 0x3042, 0x308B, 0x0022,
    0x002C, 0x0020, 0x0022, 0x5177, 0x4F53, 0x7684, 0x306A, 0x7D4C, 0x9A13, 0x3092, 0x8A71,
    0x305B, 0x308B, 0x0022, 0x005D, 0x002C, 0x000A, 0x0020, 0x0020, 0x0020, 0x0020, 0x0022,
    0x0069, 0x006D, 0x0070, 0x0072, 0x006F, 0x0076, 0x0065, 0x006D, 0x0065, 0x006E, 0x0074,
    0x0073, 0x0022, 0x003A, 0x0020, 0x005B, 0x0022, 0x6280, 0x8853, 0x7684, 0x306A, 0x6DF1,
    0x6398, 0x308A, 0x304C, 0x6D45, 0x3044, 0x0022, 0x005D, 0x002C, 0x000A, 0x0020, 0x0020,
    0x0020, 0x0020, 0x0022, 0x0073, 0x0075, 0x006D, 0x006D, 0x0061, 0x0072, 0x0079, 0x0022,
    0x003A, 0x0020, 0x0022, 0x30B3, 0x30DF, 0x30E5, 0x30CB, 0x30B1, 0x30FC, 0x30B7, 0x30E7,
    0x30F3, 0x80FD, 0x529B, 0x304C, 0x9AD8, 0x304F, 0x3001, 0x71B1, 0x610F, 0x3082, 0x611F,
    0x3058, 0x3089, 0x308C, 0x308B, 0x3002, 0x6280, 0x8853, 0x9762, 0x3067, 0x306E, 0x7D4C,
    0x9A13, 0x3092, 0x3082, 0x3046, 0x5C11, 0x3057, 0x5177, 0x4F53, 0x7684, 0x306B, 0x8A71,
    0x305B, 0x308B, 0x3068, 0x3088, 0x308A, 0x826F, 0x3044, 0x3002, 0x0022, 0x000A, 0x0020,
    0x0020, 0x007D, 0x000A, 0x007D, 0x000A]"

text \<open>
  \<open>evaluationText.match(/\{[\s\S]*\}/)\<close>, by backtracking. \<open>star_then_close\<close> matches
  \<open>[\s\S]*\}\<close> at the start of its input: the star first takes one more code unit, and
  only when nothing matches further on is the closing brace tried here. \<open>regex_match\<close>
  tries the start positions from left to right.
\<close>

fun star_then_close :: "jsstring \<Rightarrow> jsstring option" where
  "star_then_close [] = None"
| "star_then_close (c # cs) =
     (case star_then_close cs of
        Some m \<Rightarrow> Some (c # m)
      | None \<Rightarrow> if c = 0x7D then Some [c] else None)"

fun regex_match :: "jsstring \<Rightarrow> jsstring option" where
  "regex_match [] = None"
| "regex_match (c # cs) =
     (case (if c = 0x7B then star_then_close cs else None) of
        Some m \<Rightarrow> Some (c # m)
      | None \<Rightarrow> regex_match cs)"

text \<open>The message of the \<open>SyntaxError\<close> of \<open>JSON.parse\<close> depends on the input and the
  engine; the \<open>catch\<close> of \<open>parseEvaluation\<close> only logs it.\<close>

definition msg_syntax_error :: jsstring where
  "msg_syntax_error = str ''Unexpected token in JSON''"

definition fallback :: jsvalue where
  "fallback =
     JObj
       [(str ''scores'',
         JObj [(str ''communication'', JNum 5),
               (str ''technical'', JNum 5),
               (str ''motivation'', JNum 5),
               (str ''problemSolving'', JNum 5),
               (str ''overall'', JNum 5)]),
        (str ''comments'',
         JObj [(str ''strengths'', JArr [JStr msg_fallback_strength]),
               (str ''improvements'', JArr []),
               (str ''summary'', JStr msg_fallback_summary)])]"

text \<open>The body of the \<open>try\<close> in \<open>parseEvaluation\<close>; \<open>Inl\<close> is what it throws.\<close>

definition parseEvaluation_try :: "jsstring \<Rightarrow> error + jsvalue" where
  "parseEvaluation_try evaluationText =
     (case regex_match evaluationText of
        None \<Rightarrow> Inl (Error msg_no_json)
      | Some jsonMatch \<Rightarrow>
          (case JSON_parse jsonMatch of
             None \<Rightarrow> Inl (Error msg_syntax_error)
           | Some parsed \<Rightarrow>
               (case get_property parsed (str ''scores'') of
                  Inl error \<Rightarrow> Inl error
                | Inr scores \<Rightarrow>
                    if \<not> truthy scores then Inl (Error msg_incomplete)
                    else
                      (case get_property parsed (str ''comments'') of
                         Inl error \<Rightarrow> Inl error
                       | Inr comments \<Rightarrow>
                           if \<not> truthy comments then Inl (Error msg_incomplete)
                           else Inr parsed))))"

definition parseEvaluation :: "jsstring \<Rightarrow> jsvalue" where
  "parseEvaluation evaluationText =
     (case parseEvaluation_try evaluationText of
        Inr parsed \<Rightarrow> parsed
      | Inl error \<Rightarrow> fallback)"

fun join :: "jsstring \<Rightarrow> jsstring list \<Rightarrow> jsstring" where
  "join sep [] = []"
| "join sep [x] = x"
| "join sep (x # y # ys) = x @ sep @ join sep (y # ys)"

definition transcript_line :: "message \<Rightarrow> jsstring" where
  "transcript_line msg =
     (if role msg = Assistant then label_interviewer else label_candidate) @ str '': '' @ content msg"

definition generateEvaluation :: "env \<Rightarrow> message list \<Rightarrow> world \<Rightarrow> (error + jsstring) \<times> world" where
  "generateEvaluation env history w =
     (let conversationText = join [0x0A, 0x0A] (map transcript_line history);
          prompt = prompt_head @ conversationText @ prompt_tail
      in case anthropic_messages_create env
                \<lparr>model = haiku, max_tokens = 1024, system = None,
                 messages = [\<lparr>role = User, content = prompt\<rparr>]\<rparr> w of
           (Inl error, w1) \<Rightarrow> (Inl error, w1)
         | (Inr response, w1) \<Rightarrow>
             (case first_text response of
                Inl error \<Rightarrow> (Inl error, w1)
              | Inr responseText \<Rightarrow> (Inr responseText, w1)))"

fun decimal :: "nat \<Rightarrow> jsstring" where
  "decimal n = (if n < 10 then [0x30 + of_nat n] else decimal (n div 10) @ [0x30 + of_nat (n mod 10)])"

declare decimal.simps [simp del]

text \<open>The own enumerable properties that an object spread \<open>{...v}\<close> copies. What
  \<open>parseEvaluation\<close> returns is always an object (\<open>parseEvaluation_object\<close> below).\<close>

fun own_properties :: "jsvalue \<Rightarrow> (jsstring \<times> jsvalue) list" where
  "own_properties (JObj kvs) = kvs"
| "own_properties (JArr xs) = zip (map decimal [0..<length xs]) xs"
| "own_properties (JStr s) = zip (map decimal [0..<length s]) (map (\<lambda>c. JStr [c]) s)"
| "own_properties v = []"

definition evaluateCandidate ::
  "env \<Rightarrow> clientId \<Rightarrow> message list \<Rightarrow> world \<Rightarrow> (error + jsvalue) \<times> world" where
  "evaluateCandidate env clientId history w =
     (case generateEvaluation env history w of
        (Inl error, w1) \<Rightarrow> (Inl (Error msg_evaluation_failed), w1)
      | (Inr evaluationText, w1) \<Rightarrow>
          (let evaluation = parseEvaluation evaluationText;
               (now, w2) = new_Date env w1;
               result = JObj (set_property (str ''evaluatedAt'') (JStr (isoString now))
                                (own_properties evaluation));
               w3 = w2\<lparr>evaluations := (evaluations w2)(clientId \<mapsto> result)\<rparr>
           in (Inr result, w3)))"

definition getEvaluation :: "world \<Rightarrow> clientId \<Rightarrow> jsvalue option" where
  "getEvaluation w clientId = evaluations w clientId"

definition clearEvaluation :: "clientId \<Rightarrow> world \<Rightarrow> world" where
  "clearEvaluation clientId w = w\<lparr>evaluations := (evaluations w)(clientId := None)\<rparr>"

section \<open>AudioGateway\<close>

definition msg_no_history :: jsstring where
  "msg_no_history =
   [0x4F1A, 0x8A71, 0x5C65, 0x6B74, 0x304C, 0x3042, 0x308A, 0x307E, 0x305B, 0x3093]"

definition msg_no_evaluation :: jsstring where
  "msg_no_evaluation =
   [0x8A55, 0x4FA1, 0x7D50, 0x679C, 0x304C, 0x898B, 0x3064, 0x304B, 0x308A, 0x307E, 0x305B,
    0x3093]"

definition handleConnection :: "clientId \<Rightarrow> world \<Rightarrow> world" where
  "handleConnection client w = w\<lparr>audioBuffers := (audioBuffers w)(client \<mapsto> [])\<rparr>"

definition handleDisconnect :: "clientId \<Rightarrow> world \<Rightarrow> world" where
  "handleDisconnect client w = w\<lparr>audioBuffers := (audioBuffers w)(client := None)\<rparr>"

definition handleAudioData :: "clientId \<Rightarrow> byte list \<Rightarrow> world \<Rightarrow> world" where
  "handleAudioData client payload w =
     (case audioBuffers w client of
        None \<Rightarrow> w
      | Some buffer \<Rightarrow> w\<lparr>audioBuffers := (audioBuffers w)(client \<mapsto> buffer @ [payload])\<rparr>)"

definition base64_char :: "nat \<Rightarrow> 16 word" where
  "base64_char i =
     (if i < 26 then 0x41 + of_nat i
      else if i < 52 then 0x61 + of_nat (i - 26)
      else if i < 62 then 0x30 + of_nat (i - 52)
      else if i = 62 then 0x2B
      else 0x2F)"

fun base64 :: "byte list \<Rightarrow> jsstring" where
  "base64 (a # b # c # rest) =
     [base64_char (unat a div 4),
      base64_char (unat a mod 4 * 16 + unat b div 16),
      base64_char (unat b mod 16 * 4 + unat c div 64),
      base64_char (unat c mod 64)] @ base64 rest"
| "base64 [a, b] =
     [base64_char (unat a div 4),
      base64_char (unat a mod 4 * 16 + unat b div 16),
      base64_char (unat b mod 16 * 4),
      0x3D]"
| "base64 [a] = [base64_char (unat a div 4), base64_char (unat a mod 4 * 16), 0x3D, 0x3D]"
| "base64 [] = []"

definition textToSpeech :: "env \<Rightarrow> jsstring \<Rightarrow> world \<Rightarrow> (error + byte list) \<times> world" where
  "textToSpeech env text w =
     (case openai_speech_create env text w of
        (Inl error, w1) \<Rightarrow> (Inl error, w1)
      | (Inr mp3, w1) \<Rightarrow> (Inr mp3, w1))"

text \<open>
  \<open>path.join(tempDir, `audio-${client.id}-${Date.now()}.webm`)\<close>; \<open>tempDir\<close> stands for
  the directory \<open>path.join(__dirname, '../../temp')\<close> of the installation.
\<close>

definition tempDir :: jsstring where
  "tempDir = str ''temp''"

definition tempFilePath :: "clientId \<Rightarrow> nat \<Rightarrow> jsstring" where
  "tempFilePath client now =
     tempDir @ str ''/audio-'' @ client @ str ''-'' @ decimal now @ str ''.webm''"

definition writeFileSync :: "jsstring \<Rightarrow> byte list \<Rightarrow> world \<Rightarrow> world" where
  "writeFileSync path data w = w\<lparr>files := (files w)(path \<mapsto> data)\<rparr>"

definition unlinkSync :: "jsstring \<Rightarrow> world \<Rightarrow> world" where
  "unlinkSync path w = w\<lparr>files := (files w)(path := None)\<rparr>"

text \<open>
  The \<open>chat\<close>, \<open>ai-response\<close>, \<open>textToSpeech\<close>, \<open>ai-audio\<close> steps that the three
  conversation handlers share, from the reply onwards.
\<close>

definition respond :: "env \<Rightarrow> clientId \<Rightarrow> jsstring \<Rightarrow> world \<Rightarrow> (error + unit) \<times> world" where
  "respond env client response w =
     (let (now, w1) = new_Date env w;
          w2 = emit client (AiResponse response (isoString now)) w1
      in case textToSpeech env response w2 of
           (Inl error, w3) \<Rightarrow> (Inl error, w3)
         | (Inr audioBuffer, w3) \<Rightarrow> (Inr (), emit client (AiAudio (base64 audioBuffer)) w3))"

text \<open>The body of the \<open>try\<close> in \<open>handleAudioComplete\<close>. The file is written and read
  back without error.\<close>

definition audio_try :: "env \<Rightarrow> clientId \<Rightarrow> byte list list \<Rightarrow> world \<Rightarrow> (error + unit) \<times> world" where
  "audio_try env client buffer w =
     (let audioData = concat buffer;
          (now, w1) = new_Date env w;
          path = tempFilePath client (millis now);
          w2 = writeFileSync path audioData w1
      in case openai_transcriptions_create env audioData w2 of
           (Inl error, w3) \<Rightarrow> (Inl error, w3)
         | (Inr text, w3) \<Rightarrow>
             (let (now', w4) = new_Date env w3;
                  w5 = emit client (Transcription text (isoString now')) w4
              in case chat env client text w5 of
                   (Inl error, w6) \<Rightarrow> (Inl error, w6)
                 | (Inr response, w6) \<Rightarrow>
                     (case respond env client response w6 of
                        (Inl error, w7) \<Rightarrow> (Inl error, w7)
                      | (Inr u, w7) \<Rightarrow>
                          (Inr (),
                           (unlinkSync path w7)\<lparr>audioBuffers :=
                              (audioBuffers (unlinkSync path w7))(client \<mapsto> [])\<rparr>))))"

definition handleAudioComplete :: "env \<Rightarrow> clientId \<Rightarrow> world \<Rightarrow> world" where
  "handleAudioComplete env client w =
     (case audioBuffers w client of
        None \<Rightarrow> w
      | Some buffer \<Rightarrow>
          if buffer = [] then w
          else
            (case audio_try env client buffer w of
               (Inr u, w1) \<Rightarrow> w1
             | (Inl error, w1) \<Rightarrow>
                 emit client
                   (ProcessingError (str ''Failed to process audio'') (error_message error)) w1))"

definition handleTextMessage :: "env \<Rightarrow> clientId \<Rightarrow> jsstring \<Rightarrow> world \<Rightarrow> world" where
  "handleTextMessage env client payload_message w =
     (case (case chat env client payload_message w of
              (Inl error, w1) \<Rightarrow> (Inl error, w1)
            | (Inr response, w1) \<Rightarrow> respond env client response w1) of
        (Inr u, w2) \<Rightarrow> w2
      | (Inl error, w2) \<Rightarrow>
          emit client
            (ProcessingError (str ''Failed to generate response'') (error_message error)) w2)"

definition handleStartInterview :: "env \<Rightarrow> clientId \<Rightarrow> world \<Rightarrow> world" where
  "handleStartInterview env client w =
     (case (case startInterview env client w of
              (Inl error, w1) \<Rightarrow> (Inl error, w1)
            | (Inr greeting, w1) \<Rightarrow> respond env client greeting w1) of
        (Inr u, w2) \<Rightarrow> w2
      | (Inl error, w2) \<Rightarrow>
          emit client
            (ProcessingError (str ''Failed to start interview'') (error_message error)) w2)"

definition handleEndInterview :: "env \<Rightarrow> clientId \<Rightarrow> world \<Rightarrow> world" where
  "handleEndInterview env client w =
     (let history = getHistory w client
      in if history = [] then emit client (EvaluationError msg_no_history) w
         else
           (case evaluateCandidate env client history w of
              (Inr evaluation, w1) \<Rightarrow> emit client (EvaluationComplete evaluation) w1
            | (Inl error, w1) \<Rightarrow> emit client (EvaluationError msg_evaluation_failed) w1))"

definition handleGetEvaluation :: "clientId \<Rightarrow> world \<Rightarrow> world" where
  "handleGetEvaluation client w =
     (case getEvaluation w client of
        Some evaluation \<Rightarrow>
          if truthy (Some evaluation) then emit client (EvaluationResult evaluation) w
          else emit client (EvaluationError msg_no_evaluation) w
      | None \<Rightarrow> emit client (EvaluationError msg_no_evaluation) w)"

section \<open>Outcomes of the stages\<close>

text \<open>
  What the stages of a pipeline yield in an environment, as functions of the request
  alone: the statements below are written with them.
\<close>

definition chat_params :: "message list \<Rightarrow> create_params" where
  "chat_params history =
     \<lparr>model = haiku, max_tokens = 500, system = Some getSystemPrompt, messages = history\<rparr>"

definition evaluation_params :: "message list \<Rightarrow> create_params" where
  "evaluation_params history =
     \<lparr>model = haiku, max_tokens = 1024, system = None,
      messages = [\<lparr>role = User,
                   content = prompt_head @ join [0x0A, 0x0A] (map transcript_line history)
                             @ prompt_tail\<rparr>]\<rparr>"

text \<open>The text of a completion: the provider's rejection, or the failed read of the
  first block of an empty answer, or the text.\<close>

definition completion :: "env \<Rightarrow> create_params \<Rightarrow> error + jsstring" where
  "completion env params =
     (case messages_create env params of
        Inl error \<Rightarrow> Inl error
      | Inr response \<Rightarrow> first_text response)"

definition user_turn :: "jsstring \<Rightarrow> message" where
  "user_turn text = \<lparr>role = User, content = text\<rparr>"

definition assistant_turn :: "jsstring \<Rightarrow> message" where
  "assistant_turn text = \<lparr>role = Assistant, content = text\<rparr>"

text \<open>The calls a run has issued and the events it has emitted: what it appended.\<close>

definition new_calls :: "world \<Rightarrow> world \<Rightarrow> call list" where
  "new_calls w w' = drop (length (calls w)) (calls w')"

definition new_events :: "world \<Rightarrow> world \<Rightarrow> (clientId \<times> event) list" where
  "new_events w w' = drop (length (emitted w)) (emitted w')"

text \<open>The rejection of a call by its provider, if it rejects it.\<close>

fun rejection :: "env \<Rightarrow> call \<Rightarrow> error option" where
  "rejection env (TranscriptionsCreate file) =
     (case transcriptions_create env file of Inl error \<Rightarrow> Some error | Inr text \<Rightarrow> None)"
| "rejection env (MessagesCreate params) =
     (case messages_create env params of Inl error \<Rightarrow> Some error | Inr response \<Rightarrow> None)"
| "rejection env (SpeechCreate input) =
     (case speech_create env input of Inl error \<Rightarrow> Some error | Inr mp3 \<Rightarrow> None)"

datatype provider = Whisper | Claude | Tts

fun provider_of :: "call \<Rightarrow> provider" where
  "provider_of (TranscriptionsCreate file) = Whisper"
| "provider_of (MessagesCreate params) = Claude"
| "provider_of (SpeechCreate input) = Tts"

section \<open>Sample environments and worlds\<close>

definition client_a :: clientId where
  "client_a = str ''Zk3vQ''"

definition client_b :: clientId where
  "client_b = str ''p0Wx7''"

definition sample_clock :: "nat \<Rightarrow> date" where
  "sample_clock n = \<lparr>millis = 1700000000000 + n, isoString = str ''2023-11-14T22:13:20.000Z''\<rparr>"

text \<open>Every provider answers.\<close>

definition env_up :: env where
  "env_up =
     \<lparr>messages_create = (\<lambda>params. Inr [TextBlock (str ''Why this role?'')]),
      transcriptions_create = (\<lambda>file. Inr (str ''hello'')),
      speech_create = (\<lambda>input. Inr [0x49, 0x44, 0x33]),
      clock = sample_clock\<rparr>"

text \<open>One provider rejects, the others answer.\<close>

definition env_whisper_down :: env where
  "env_whisper_down = env_up\<lparr>transcriptions_create := (\<lambda>file. Inl (Error (str ''401 bad key'')))\<rparr>"

definition env_claude_down :: env where
  "env_claude_down = env_up\<lparr>messages_create := (\<lambda>params. Inl (Error (str ''529 overloaded'')))\<rparr>"

definition env_tts_down :: env where
  "env_tts_down = env_up\<lparr>speech_create := (\<lambda>input. Inl (Error (str ''429 rate limit'')))\<rparr>"

definition world_start :: world where
  "world_start =
     \<lparr>audioBuffers = Map.empty, conversationHistory = Map.empty, evaluations = Map.empty,
      files = Map.empty, emitted = [], calls = [], clock_reads = 0\<rparr>"

text \<open>\<open>client_a\<close> has sent two chunks; \<open>client_b\<close> has connected.\<close>

definition world_listening :: world where
  "world_listening =
     world_start\<lparr>audioBuffers := [client_a \<mapsto> [[0x1A, 0x45], [0xDF]], client_b \<mapsto> []]\<rparr>"

text \<open>Both clients have had one exchange and have been evaluated.\<close>

definition sample_history :: "message list" where
  "sample_history = [user_turn (str ''hello''), assistant_turn (str ''Why this role?'')]"

definition world_talked :: world where
  "world_talked =
     world_start\<lparr>audioBuffers := [client_a \<mapsto> [[0x1A]], client_b \<mapsto> []],
                 conversationHistory := [client_a \<mapsto> sample_history, client_b \<mapsto> sample_history],
                 evaluations := [client_a \<mapsto> fallback, client_b \<mapsto> fallback]\<rparr>"

section \<open>The words of the specification about \<open>parseEvaluation\<close>\<close>

text \<open>
  The substring from the first \<open>{\<close> through the last \<open>}\<close>: with \<open>i\<close> the index of the
  first \<open>{\<close> of the reply and \<open>j\<close> the index of its last \<open>}\<close>, the code units \<open>i\<close> to
  \<open>j\<close>, when both indices exist and \<open>i < j\<close>.
\<close>

definition first_index :: "16 word \<Rightarrow> jsstring \<Rightarrow> nat option" where
  "first_index c s =
     (if c \<in> set s then Some (length (takeWhile (\<lambda>x. x \<noteq> c) s)) else None)"

definition last_index :: "16 word \<Rightarrow> jsstring \<Rightarrow> nat option" where
  "last_index c s =
     (if c \<in> set s then Some (length s - 1 - length (takeWhile (\<lambda>x. x \<noteq> c) (rev s))) else None)"

definition brace_block :: "jsstring \<Rightarrow> jsstring option" where
  "brace_block s =
     (case (first_index 0x7B s, last_index 0x7D s) of
        (Some i, Some j) \<Rightarrow> if i < j then Some (take (j + 1 - i) (drop i s)) else None
      | _ \<Rightarrow> None)"

text \<open>A field of the parsed data: an own property of an object.\<close>

definition own_field :: "jsvalue \<Rightarrow> jsstring \<Rightarrow> jsvalue option" where
  "own_field v k = (case v of JObj kvs \<Rightarrow> map_of kvs k | _ \<Rightarrow> None)"






text \<open>Sample replies of the grading model.\<close>

definition reply_zero_scores :: jsstring where
  \<open>reply_zero_scores = str ''{"scores":0,"comments":"ok"}''\<close>



definition block_in_prose :: jsstring where
  \<open>block_in_prose = str ''{"scores":{"overall":7.5},"comments":{"summary":"ok"}}''\<close>

definition reply_in_prose :: jsstring where
  "reply_in_prose = str ''Here it is: '' @ block_in_prose @ str '' Thanks.''"

definition reply_no_block :: jsstring where
  "reply_no_block = str ''I cannot grade this.''"

definition reply_unclosed :: jsstring where
  \<open>reply_unclosed = str ''{"scores": {"overall": 7}, ''\<close>

definition reply_bad_json :: jsstring where
  \<open>reply_bad_json = str ''{"scores": {"overall": 7},}''\<close>

definition reply_no_comments :: jsstring where
  \<open>reply_no_comments = str ''{"scores": {"overall": 7}}''\<close>

section \<open>The effects of the building blocks\<close>

lemma chat_eq:
  "chat env c u w =
     (let h = getHistory w c @ [user_turn u];
          w1 = w\<lparr>conversationHistory := (conversationHistory w)(c \<mapsto> h),
                  calls := calls w @ [MessagesCreate (chat_params h)]\<rparr>
      in case completion env (chat_params h) of
           Inl e \<Rightarrow> (Inl e, w1)
         | Inr a \<Rightarrow> (Inr a, w1\<lparr>conversationHistory := (conversationHistory w)(c \<mapsto> h @ [assistant_turn a])\<rparr>))"
  by (simp add: chat_def Let_def anthropic_messages_create_def history_push_def getHistory_def
      completion_def chat_params_def user_turn_def assistant_turn_def split: sum.splits)

lemma startInterview_eq:
  "startInterview env c w =
     (let p = chat_params [user_turn opening_instruction];
          w1 = w\<lparr>conversationHistory := (conversationHistory w)(c \<mapsto> getHistory w c),
                  calls := calls w @ [MessagesCreate p]\<rparr>
      in case completion env p of
           Inl e \<Rightarrow> (Inl e, w1)
         | Inr a \<Rightarrow> (Inr a, w1\<lparr>conversationHistory := (conversationHistory w)
                 (c \<mapsto> getHistory w c @ [user_turn opening_instruction, assistant_turn a])\<rparr>))"
  by (simp add: startInterview_def Let_def anthropic_messages_create_def history_push_def getHistory_def
      completion_def chat_params_def user_turn_def assistant_turn_def split: sum.splits)

lemma respond_eq:
  "respond env c text w =
     (let w1 = w\<lparr>clock_reads := Suc (clock_reads w),
                  emitted := emitted w @ [(c, AiResponse text (isoString (clock env (clock_reads w))))],
                  calls := calls w @ [SpeechCreate text]\<rparr>
      in case speech_create env text of
           Inl e \<Rightarrow> (Inl e, w1)
         | Inr audio \<Rightarrow> (Inr (), w1\<lparr>emitted := emitted w1 @ [(c, AiAudio (base64 audio))]\<rparr>))"
  by (simp add: respond_def Let_def new_Date_def emit_def textToSpeech_def openai_speech_create_def
      split: sum.splits)

lemma generateEvaluation_eq:
  "generateEvaluation env h w =
     (completion env (evaluation_params h), w\<lparr>calls := calls w @ [MessagesCreate (evaluation_params h)]\<rparr>)"
  by (simp add: generateEvaluation_def Let_def anthropic_messages_create_def completion_def
      evaluation_params_def split: sum.splits)

lemma audio_try_eq:
  "audio_try env c buffer w =
     (let n = clock_reads w;
          path = tempFilePath c (millis (clock env n));
          h = getHistory w c;
          wa = w\<lparr>clock_reads := Suc n,
                  files := (files w)(path \<mapsto> concat buffer),
                  calls := calls w @ [TranscriptionsCreate (concat buffer)]\<rparr>
      in case transcriptions_create env (concat buffer) of
           Inl e \<Rightarrow> (Inl e, wa)
         | Inr text \<Rightarrow>
            (let wb = wa\<lparr>clock_reads := Suc (Suc n),
                         emitted := emitted w @ [(c, Transcription text (isoString (clock env (Suc n))))],
                         conversationHistory := (conversationHistory w)(c \<mapsto> h @ [user_turn text]),
                         calls := calls wa @ [MessagesCreate (chat_params (h @ [user_turn text]))]\<rparr>
             in case completion env (chat_params (h @ [user_turn text])) of
                  Inl e \<Rightarrow> (Inl e, wb)
                | Inr response \<Rightarrow>
                   (let wc = wb\<lparr>clock_reads := Suc (Suc (Suc n)),
                                emitted := emitted wb @ [(c, AiResponse response (isoString (clock env (Suc (Suc n)))))],
                                conversationHistory := (conversationHistory w)(c \<mapsto> h @ [user_turn text, assistant_turn response]),
                                calls := calls wb @ [SpeechCreate response]\<rparr>
                    in case speech_create env response of
                         Inl e \<Rightarrow> (Inl e, wc)
                       | Inr audio \<Rightarrow>
                           (Inr (), wc\<lparr>emitted := emitted wc @ [(c, AiAudio (base64 audio))],
                                       files := (files w)(path := None),
                                       audioBuffers := (audioBuffers w)(c \<mapsto> [])\<rparr>))))"
  by (simp add: audio_try_def Let_def new_Date_def writeFileSync_def unlinkSync_def emit_def
      openai_transcriptions_create_def chat_eq respond_eq getHistory_def
      split: sum.splits)

section \<open>The effects of the handlers\<close>

lemma handleAudioComplete_emitted:
  assumes "audioBuffers w c = Some buffer" and "buffer \<noteq> []"
  shows "emitted (handleAudioComplete env c w) =
     emitted w @ map (Pair c)
       (case transcriptions_create env (concat buffer) of
          Inl e \<Rightarrow> [ProcessingError (str ''Failed to process audio'') (error_message e)]
        | Inr text \<Rightarrow>
            Transcription text (isoString (clock env (Suc (clock_reads w)))) #
            (case completion env (chat_params (getHistory w c @ [user_turn text])) of
               Inl e \<Rightarrow> [ProcessingError (str ''Failed to process audio'') (error_message e)]
             | Inr response \<Rightarrow>
                 AiResponse response (isoString (clock env (Suc (Suc (clock_reads w))))) #
                 (case speech_create env response of
                    Inl e \<Rightarrow> [ProcessingError (str ''Failed to process audio'') (error_message e)]
                  | Inr audio \<Rightarrow> [AiAudio (base64 audio)])))"
  using assms
  by (simp add: handleAudioComplete_def audio_try_eq Let_def emit_def split: sum.splits)

lemma handleAudioComplete_calls:
  assumes "audioBuffers w c = Some buffer" and "buffer \<noteq> []"
  shows "calls (handleAudioComplete env c w) =
     calls w @ TranscriptionsCreate (concat buffer) #
       (case transcriptions_create env (concat buffer) of
          Inl e \<Rightarrow> []
        | Inr text \<Rightarrow>
            MessagesCreate (chat_params (getHistory w c @ [user_turn text])) #
            (case completion env (chat_params (getHistory w c @ [user_turn text])) of
               Inl e \<Rightarrow> []
             | Inr response \<Rightarrow> [SpeechCreate response]))"
  using assms
  by (simp add: handleAudioComplete_def audio_try_eq Let_def emit_def split: sum.splits)

lemma handleAudioComplete_files:
  assumes "audioBuffers w c = Some buffer" and "buffer \<noteq> []"
  shows "files (handleAudioComplete env c w) =
     (case transcriptions_create env (concat buffer) of
        Inl e \<Rightarrow> (files w)(tempFilePath c (millis (clock env (clock_reads w))) \<mapsto> concat buffer)
      | Inr text \<Rightarrow>
          (case completion env (chat_params (getHistory w c @ [user_turn text])) of
             Inl e \<Rightarrow> (files w)(tempFilePath c (millis (clock env (clock_reads w))) \<mapsto> concat buffer)
           | Inr response \<Rightarrow>
               (case speech_create env response of
                  Inl e \<Rightarrow> (files w)(tempFilePath c (millis (clock env (clock_reads w))) \<mapsto> concat buffer)
                | Inr audio \<Rightarrow> (files w)(tempFilePath c (millis (clock env (clock_reads w))) := None))))"
  using assms
  by (simp add: handleAudioComplete_def audio_try_eq Let_def emit_def split: sum.splits)

lemma handleTextMessage_emitted:
  "emitted (handleTextMessage env c u w) =
     emitted w @ map (Pair c)
       (case completion env (chat_params (getHistory w c @ [user_turn u])) of
          Inl e \<Rightarrow> [ProcessingError (str ''Failed to generate response'') (error_message e)]
        | Inr response \<Rightarrow>
            AiResponse response (isoString (clock env (clock_reads w))) #
            (case speech_create env response of
               Inl e \<Rightarrow> [ProcessingError (str ''Failed to generate response'') (error_message e)]
             | Inr audio \<Rightarrow> [AiAudio (base64 audio)]))"
  by (simp add: handleTextMessage_def chat_eq respond_eq Let_def emit_def split: sum.splits)

lemma handleTextMessage_calls:
  "calls (handleTextMessage env c u w) =
     calls w @ MessagesCreate (chat_params (getHistory w c @ [user_turn u])) #
       (case completion env (chat_params (getHistory w c @ [user_turn u])) of
          Inl e \<Rightarrow> []
        | Inr response \<Rightarrow> [SpeechCreate response])"
  by (simp add: handleTextMessage_def chat_eq respond_eq Let_def emit_def split: sum.splits)

lemma handleStartInterview_emitted:
  "emitted (handleStartInterview env c w) =
     emitted w @ map (Pair c)
       (case completion env (chat_params [user_turn opening_instruction]) of
          Inl e \<Rightarrow> [ProcessingError (str ''Failed to start interview'') (error_message e)]
        | Inr greeting \<Rightarrow>
            AiResponse greeting (isoString (clock env (clock_reads w))) #
            (case speech_create env greeting of
               Inl e \<Rightarrow> [ProcessingError (str ''Failed to start interview'') (error_message e)]
             | Inr audio \<Rightarrow> [AiAudio (base64 audio)]))"
  by (simp add: handleStartInterview_def startInterview_eq respond_eq Let_def emit_def split: sum.splits)

lemma handleStartInterview_calls:
  "calls (handleStartInterview env c w) =
     calls w @ MessagesCreate (chat_params [user_turn opening_instruction]) #
       (case completion env (chat_params [user_turn opening_instruction]) of
          Inl e \<Rightarrow> []
        | Inr greeting \<Rightarrow> [SpeechCreate greeting])"
  by (simp add: handleStartInterview_def startInterview_eq respond_eq Let_def emit_def split: sum.splits)

lemma evaluateCandidate_eq:
  "evaluateCandidate env c h w =
     (let w1 = w\<lparr>calls := calls w @ [MessagesCreate (evaluation_params h)]\<rparr>
      in case completion env (evaluation_params h) of
           Inl e \<Rightarrow> (Inl (Error msg_evaluation_failed), w1)
         | Inr text \<Rightarrow>
             (let result = JObj (set_property (str ''evaluatedAt'')
                                  (JStr (isoString (clock env (clock_reads w))))
                                  (own_properties (parseEvaluation text)))
              in (Inr result,
                  w1\<lparr>clock_reads := Suc (clock_reads w),
                     evaluations := (evaluations w)(c \<mapsto> result)\<rparr>)))"
  by (simp add: evaluateCandidate_def generateEvaluation_eq Let_def new_Date_def split: sum.splits)

lemma handleEndInterview_emitted:
  "emitted (handleEndInterview env c w) =
     emitted w @
       [(c, if getHistory w c = [] then EvaluationError msg_no_history
            else (case completion env (evaluation_params (getHistory w c)) of
                    Inl e \<Rightarrow> EvaluationError msg_evaluation_failed
                  | Inr text \<Rightarrow>
                      EvaluationComplete
                        (JObj (set_property (str ''evaluatedAt'')
                                 (JStr (isoString (clock env (clock_reads w))))
                                 (own_properties (parseEvaluation text))))))]"
  by (simp add: handleEndInterview_def evaluateCandidate_eq Let_def emit_def split: sum.splits)

lemma handleEndInterview_calls:
  "calls (handleEndInterview env c w) =
     calls w @ (if getHistory w c = [] then []
                else [MessagesCreate (evaluation_params (getHistory w c))])"
  by (simp add: handleEndInterview_def evaluateCandidate_eq Let_def emit_def split: sum.splits)

section \<open>The regular expression finds the block of the specification\<close>

lemma length_takeWhile_strict:
  "x \<in> set ys \<Longrightarrow> \<not> P x \<Longrightarrow> length (takeWhile P ys) < length ys"
  by (induction ys) auto

lemma first_index_Nil: "first_index c [] = None"
  by (simp add: first_index_def)

lemma first_index_Cons:
  "first_index c (x # xs) = (if x = c then Some 0 else map_option Suc (first_index c xs))"
  by (simp add: first_index_def)

lemma last_index_None: "(last_index c xs = None) = (c \<notin> set xs)"
  by (simp add: last_index_def)

lemma last_index_Cons:
  "last_index c (x # xs) =
     (if c \<in> set xs then map_option Suc (last_index c xs)
      else if x = c then Some 0 else None)"
proof (cases "c \<in> set xs")
  case True
  then have "takeWhile (\<lambda>y. y \<noteq> c) (rev xs @ [x]) = takeWhile (\<lambda>y. y \<noteq> c) (rev xs)"
    by (intro takeWhile_append1 [of c]) auto
  moreover from True have "length (takeWhile (\<lambda>y. y \<noteq> c) (rev xs)) < length xs"
    using length_takeWhile_strict [of c "rev xs" "\<lambda>y. y \<noteq> c"] by simp
  ultimately show ?thesis using True by (simp add: last_index_def)
next
  case False
  show ?thesis
  proof (cases "x = c")
    case True
    from False have "takeWhile (\<lambda>y. y \<noteq> c) (rev xs @ [c]) = rev xs @ takeWhile (\<lambda>y. y \<noteq> c) [c]"
      by (intro takeWhile_append2) auto
    then have "length (takeWhile (\<lambda>y. y \<noteq> c) (rev xs @ [c])) = length xs"
      by simp
    with True False show ?thesis by (simp add: last_index_def)
  next
    case distinct: False
    with False show ?thesis by (simp add: last_index_def)
  qed
qed

lemma star_then_close_last:
  "star_then_close cs =
     (case last_index 0x7D cs of None \<Rightarrow> None | Some j \<Rightarrow> Some (take (j + 1) cs))"
proof (induction cs)
  case Nil
  then show ?case by (simp add: last_index_def)
next
  case (Cons c cs)
  show ?case
  proof (cases "last_index 0x7D cs")
    case None
    then have "0x7D \<notin> set cs" by (simp add: last_index_None)
    with None Cons.IH show ?thesis by (simp add: last_index_Cons)
  next
    case (Some j)
    then have "0x7D \<in> set cs" using last_index_None [of "0x7D" cs] by auto
    with Some Cons.IH show ?thesis by (simp add: last_index_Cons)
  qed
qed

lemma regex_match_no_close: "0x7D \<notin> set cs \<Longrightarrow> regex_match cs = None"
proof (induction cs)
  case Nil
  then show ?case by simp
next
  case (Cons c cs)
  then have "last_index 0x7D cs = None" by (simp add: last_index_None)
  with Cons show ?case by (simp add: star_then_close_last)
qed

lemma brace_block_open:
  "brace_block (0x7B # cs) =
     (case last_index 0x7D cs of None \<Rightarrow> None | Some j \<Rightarrow> Some (0x7B # take (j + 1) cs))"
proof (cases "last_index 0x7D cs")
  case None
  then have "0x7D \<notin> set cs" by (simp add: last_index_None)
  with None show ?thesis by (simp add: brace_block_def first_index_Cons last_index_Cons)
next
  case (Some j)
  then have "0x7D \<in> set cs" using last_index_None [of "0x7D" cs] by auto
  with Some show ?thesis by (simp add: brace_block_def first_index_Cons last_index_Cons)
qed

lemma brace_block_skip:
  assumes "c \<noteq> 0x7B"
  shows "brace_block (c # cs) = brace_block cs"
proof (cases "first_index 0x7B cs")
  case None
  with assms show ?thesis by (simp add: brace_block_def first_index_Cons)
next
  case (Some i)
  show ?thesis
  proof (cases "last_index 0x7D cs")
    case None
    then have "0x7D \<notin> set cs" by (simp add: last_index_None)
    with None Some assms show ?thesis
      by (simp add: brace_block_def first_index_Cons last_index_Cons)
  next
    case j: (Some j)
    then have "0x7D \<in> set cs" using last_index_None [of "0x7D" cs] by auto
    with j Some assms show ?thesis
      by (simp add: brace_block_def first_index_Cons last_index_Cons)
  qed
qed

lemma regex_match_brace_block: "regex_match s = brace_block s"
proof (induction s)
  case Nil
  then show ?case by (simp add: brace_block_def first_index_Nil)
next
  case (Cons c cs)
  show ?case
  proof (cases "c = 0x7B")
    case True
    show ?thesis
    proof (cases "last_index 0x7D cs")
      case None
      then have "regex_match cs = None"
        by (simp add: regex_match_no_close last_index_None)
      with None True show ?thesis by (simp add: brace_block_open star_then_close_last)
    next
      case (Some j)
      with True show ?thesis by (simp add: brace_block_open star_then_close_last)
    qed
  next
    case False
    with Cons.IH show ?thesis by (simp add: brace_block_skip)
  qed
qed

section \<open>The conversation history\<close>

lemma chat_history:
  "getHistory (snd (chat env c u w)) c =
     (case fst (chat env c u w) of
        Inl e \<Rightarrow> getHistory w c @ [user_turn u]
      | Inr a \<Rightarrow> getHistory w c @ [user_turn u, assistant_turn a])"
  by (simp add: chat_eq Let_def getHistory_def split: sum.splits)

lemma chats_history:
  "chats c steps w = (Inr rs, w') \<Longrightarrow>
     length rs = length steps \<and> getHistory w' c = getHistory w c @ turns (map snd steps) rs"
proof (induction steps arbitrary: w rs)
  case Nil
  then show ?case by simp
next
  case (Cons step steps)
  obtain env u where step: "step = (env, u)" by (cases step)
  from Cons.prems step obtain a w1 rs' where
    first: "chat env c u w = (Inr a, w1)" and
    rest: "chats c steps w1 = (Inr rs', w')" and
    rs: "rs = a # rs'"
    by (auto split: sum.splits prod.splits)
  from chat_history [of env c u w] first
  have "getHistory w1 c = getHistory w c @ [user_turn u, assistant_turn a]" by simp
  with Cons.IH [OF rest] rs step show ?case
    by (simp add: user_turn_def assistant_turn_def)
qed

lemma length_turns: "length rs = length us \<Longrightarrow> length (turns us rs) = 2 * length us"
  by (induction us rs rule: turns.induct) auto

text \<open>
  C5. From an empty history, after \<open>n\<close> calls of \<open>chat\<close> that all returned,
  \<open>getHistory\<close> has \<open>2 * n\<close> elements: the user message of each call followed by
  its reply, in the order of the calls.
\<close>

theorem chats_history_length:
  assumes "getHistory w c = []" and "chats c steps w = (Inr rs, w')"
  shows "length (getHistory w' c) = 2 * length steps \<and>
         getHistory w' c = turns (map snd steps) rs"
  using chats_history [OF assms(2)] assms(1) by (simp add: length_turns)

theorem chats_history_length_witness:
  "getHistory world_start client_a = [] \<and>
   fst (chats client_a [(env_up, str ''hello''), (env_tts_down, str ''I like it'')] world_start)
     = Inr [str ''Why this role?'', str ''Why this role?''] \<and>
   getHistory
     (snd (chats client_a [(env_up, str ''hello''), (env_tts_down, str ''I like it'')] world_start))
     client_a =
     [user_turn (str ''hello''), assistant_turn (str ''Why this role?''),
      user_turn (str ''I like it''), assistant_turn (str ''Why this role?'')]"
proof -
  have empty: "getHistory world_start client_a = []"
    by (simp add: getHistory_def world_start_def)
  have replies:
    "fst (chats client_a [(env_up, str ''hello''), (env_tts_down, str ''I like it'')] world_start)
      = Inr [str ''Why this role?'', str ''Why this role?'']"
    by (simp add: chat_eq Let_def completion_def env_up_def env_tts_down_def)
  then have run:
    "chats client_a [(env_up, str ''hello''), (env_tts_down, str ''I like it'')] world_start =
      (Inr [str ''Why this role?'', str ''Why this role?''],
       snd (chats client_a [(env_up, str ''hello''), (env_tts_down, str ''I like it'')] world_start))"
    by (simp add: prod_eq_iff)
  from chats_history_length [OF empty run] empty replies show ?thesis
    by (simp add: user_turn_def assistant_turn_def)
qed

lemma chat_result:
  "fst (chat env c u w) = completion env (chat_params (getHistory w c @ [user_turn u]))"
  by (simp add: chat_eq Let_def split: sum.splits)

text \<open>
  C9. When \<open>chat\<close> rejects, it rejects with the error of the completion, and the user
  turn it pushed before the call stays: the history is the one before the call followed
  by that turn, one element longer.
\<close>

theorem chat_failure_keeps_user_turn:
  assumes "chat env c u w = (Inl e, w')"
  shows "completion env (chat_params (getHistory w c @ [\<lparr>role = User, content = u\<rparr>])) = Inl e \<and>
         getHistory w' c = getHistory w c @ [\<lparr>role = User, content = u\<rparr>] \<and>
         length (getHistory w' c) = length (getHistory w c) + 1"
  using chat_history [of env c u w] chat_result [of env c u w] assms
  by (simp add: user_turn_def)

theorem chat_failure_keeps_user_turn_witness:
  "fst (chat env_claude_down client_a (str ''I like it'') world_talked) = Inl (Error (str ''529 overloaded'')) \<and>
   getHistory (snd (chat env_claude_down client_a (str ''I like it'') world_talked)) client_a =
     sample_history @ [\<lparr>role = User, content = str ''I like it''\<rparr>]"
proof -
  have rejected: "fst (chat env_claude_down client_a (str ''I like it'') world_talked)
      = Inl (Error (str ''529 overloaded''))"
    by (simp add: chat_eq Let_def completion_def env_claude_down_def env_up_def)
  then have run: "chat env_claude_down client_a (str ''I like it'') world_talked =
      (Inl (Error (str ''529 overloaded'')), snd (chat env_claude_down client_a (str ''I like it'') world_talked))"
    by (simp add: prod_eq_iff)
  have before: "getHistory world_talked client_a = sample_history"
    by (simp add: getHistory_def world_talked_def world_start_def)
  from chat_failure_keeps_user_turn [OF run] before rejected show ?thesis by simp
qed

section \<open>The audio pipeline\<close>



text \<open>
  C6. A run of \<open>handleAudioComplete\<close> on an accumulator that holds a chunk adds to the
  events emitted before it, all on the client's socket: \<open>transcription\<close>, \<open>ai-response\<close>
  and \<open>ai-audio\<close> in this order when the three stages succeed; when a stage fails, the
  events of the stages before it followed by one \<open>processing-error\<close>. The stages after a
  failed one are not called.
\<close>

theorem audio_complete_events:
  assumes "audioBuffers w client = Some buffer" and "buffer \<noteq> []"
  shows "emitted (handleAudioComplete env client w) =
           emitted w @ map (Pair client)
             (case transcriptions_create env (concat buffer) of
                Inl e \<Rightarrow> [ProcessingError (str ''Failed to process audio'') (error_message e)]
              | Inr text \<Rightarrow>
                  Transcription text (isoString (clock env (Suc (clock_reads w)))) #
                  (case completion env (chat_params (getHistory w client @ [user_turn text])) of
                     Inl e \<Rightarrow> [ProcessingError (str ''Failed to process audio'') (error_message e)]
                   | Inr response \<Rightarrow>
                       AiResponse response (isoString (clock env (Suc (Suc (clock_reads w))))) #
                       (case speech_create env response of
                          Inl e \<Rightarrow> [ProcessingError (str ''Failed to process audio'') (error_message e)]
                        | Inr audio \<Rightarrow> [AiAudio (base64 audio)]))) \<and>
         calls (handleAudioComplete env client w) =
           calls w @ TranscriptionsCreate (concat buffer) #
             (case transcriptions_create env (concat buffer) of
                Inl e \<Rightarrow> []
              | Inr text \<Rightarrow>
                  MessagesCreate (chat_params (getHistory w client @ [user_turn text])) #
                  (case completion env (chat_params (getHistory w client @ [user_turn text])) of
                     Inl e \<Rightarrow> []
                   | Inr response \<Rightarrow> [SpeechCreate response]))"
  using handleAudioComplete_emitted [OF assms] handleAudioComplete_calls [OF assms] by simp

lemma world_listening_a:
  "audioBuffers world_listening client_a = Some [[0x1A, 0x45], [0xDF]]"
  by (simp add: world_listening_def client_a_def client_b_def str_def)

theorem audio_complete_events_witness:
  "map (\<lambda>(c, ev). (c, event_name ev)) (emitted (handleAudioComplete env_up client_a world_listening)) =
     [(client_a, ''transcription''), (client_a, ''ai-response''), (client_a, ''ai-audio'')] \<and>
   map provider_of (calls (handleAudioComplete env_up client_a world_listening)) = [Whisper, Claude, Tts] \<and>
   emitted (handleAudioComplete env_claude_down client_a world_listening) =
     [(client_a, Transcription (str ''hello'') (str ''2023-11-14T22:13:20.000Z'')),
      (client_a, ProcessingError (str ''Failed to process audio'') (str ''529 overloaded''))] \<and>
   map provider_of (calls (handleAudioComplete env_claude_down client_a world_listening)) = [Whisper, Claude]"
proof -
  have nonempty: "[[0x1A, 0x45], [0xDF]] \<noteq> ([] :: byte list list)" by simp
  from audio_complete_events [OF world_listening_a nonempty, of env_up]
    audio_complete_events [OF world_listening_a nonempty, of env_claude_down]
  show ?thesis
    by (simp add: env_up_def env_claude_down_def completion_def sample_clock_def
        world_listening_def world_start_def)
qed

text \<open>
  C3. The file that a run of \<open>handleAudioComplete\<close> writes is removed by the last
  statements of the \<open>try\<close>, which only a run of three successful stages reaches: after a
  failed transcription, chat or synthesis the file is still there, with the audio in it.
\<close>

theorem temp_file_after_audio_complete:
  assumes "audioBuffers w client = Some buffer" and "buffer \<noteq> []"
  shows "files (handleAudioComplete env client w)
             (tempFilePath client (millis (clock env (clock_reads w)))) =
           (case transcriptions_create env (concat buffer) of
              Inl e \<Rightarrow> Some (concat buffer)
            | Inr text \<Rightarrow>
                (case completion env (chat_params (getHistory w client @ [user_turn text])) of
                   Inl e \<Rightarrow> Some (concat buffer)
                 | Inr response \<Rightarrow>
                     (case speech_create env response of
                        Inl e \<Rightarrow> Some (concat buffer)
                      | Inr audio \<Rightarrow> None)))"
  using handleAudioComplete_files [OF assms, of env] by (simp split: sum.splits)

theorem temp_file_after_audio_complete_witness:
  "files (handleAudioComplete env_whisper_down client_a world_listening)
     (tempFilePath client_a 1700000000000) = Some [0x1A, 0x45, 0xDF] \<and>
   files (handleAudioComplete env_tts_down client_a world_listening)
     (tempFilePath client_a 1700000000000) = Some [0x1A, 0x45, 0xDF] \<and>
   files (handleAudioComplete env_up client_a world_listening)
     (tempFilePath client_a 1700000000000) = None"
proof -
  have nonempty: "[[0x1A, 0x45], [0xDF]] \<noteq> ([] :: byte list list)" by simp
  from temp_file_after_audio_complete [OF world_listening_a nonempty, of env_whisper_down]
    temp_file_after_audio_complete [OF world_listening_a nonempty, of env_tts_down]
    temp_file_after_audio_complete [OF world_listening_a nonempty, of env_up]
  show ?thesis
    by (simp add: env_up_def env_whisper_down_def env_tts_down_def completion_def sample_clock_def
        world_listening_def world_start_def)
qed

section \<open>Disconnect\<close>

text \<open>
  C4, as the claim states it, fails: \<open>handleDisconnect\<close> leaves the conversation history
  of the session in \<open>ChatService\<close>.
\<close>

theorem disconnect_discards_history_counterexample:
  "getHistory world_talked client_a \<noteq> [] \<and>
   getHistory (handleDisconnect client_a world_talked) client_a = getHistory world_talked client_a"
  by (simp add: handleDisconnect_def getHistory_def world_talked_def world_start_def sample_history_def)

text \<open>
  C4, amended. \<open>handleDisconnect\<close> removes the audio accumulator of the session and
  nothing else: the conversation history and the evaluation record of the session stay,
  as do the accumulators of the other sessions and the rest of the state.
\<close>

theorem disconnect_removes_accumulator_only:
  "audioBuffers (handleDisconnect client w) client = None \<and>
   (\<forall>other. other \<noteq> client \<longrightarrow>
      audioBuffers (handleDisconnect client w) other = audioBuffers w other) \<and>
   conversationHistory (handleDisconnect client w) = conversationHistory w \<and>
   evaluations (handleDisconnect client w) = evaluations w \<and>
   files (handleDisconnect client w) = files w \<and>
   emitted (handleDisconnect client w) = emitted w \<and>
   calls (handleDisconnect client w) = calls w"
  by (simp add: handleDisconnect_def)

theorem disconnect_removes_accumulator_only_witness:
  "audioBuffers world_talked client_a = Some [[0x1A]] \<and>
   audioBuffers (handleDisconnect client_a world_talked) client_a = None \<and>
   audioBuffers (handleDisconnect client_a world_talked) client_b = Some [] \<and>
   getHistory (handleDisconnect client_a world_talked) client_a = sample_history \<and>
   getEvaluation (handleDisconnect client_a world_talked) client_a = Some fallback"
proof -
  have distinct: "client_b \<noteq> client_a"
    by (simp add: client_a_def client_b_def str_def)
  with disconnect_removes_accumulator_only [of client_a world_talked] show ?thesis
    by (simp add: getHistory_def getEvaluation_def world_talked_def world_start_def)
qed

section \<open>Provider failures\<close>

lemma new_calls_append: "calls w' = calls w @ cs \<Longrightarrow> new_calls w w' = cs"
  by (simp add: new_calls_def)

lemma new_events_append: "emitted w' = emitted w @ evs \<Longrightarrow> new_events w w' = evs"
  by (simp add: new_events_def)

lemma answered_completion:
  "completion env params = Inr text \<Longrightarrow> rejection env (MessagesCreate params) = None"
  by (simp add: completion_def split: sum.splits)

lemma audio_rejection:
  assumes "audioBuffers w c = Some buffer" and "buffer \<noteq> []"
    and "call \<in> set (new_calls w (handleAudioComplete env c w))"
    and "rejection env call = Some e"
  shows "last (new_calls w (handleAudioComplete env c w)) = call \<and>
         last (emitted (handleAudioComplete env c w)) =
           (c, ProcessingError (str ''Failed to process audio'') (error_message e))"
proof -
  note calls = new_calls_append [OF handleAudioComplete_calls [OF assms(1,2), of env]]
  note emitted = handleAudioComplete_emitted [OF assms(1,2), of env]
  show ?thesis
  proof (cases "transcriptions_create env (concat buffer)")
    case (Inl e1)
    with assms(3,4) calls emitted show ?thesis by auto
  next
    case transcribed: (Inr transcript)
    show ?thesis
    proof (cases "completion env (chat_params (getHistory w c @ [user_turn transcript]))")
      case (Inl e2)
      with transcribed assms(3,4) calls emitted show ?thesis
        by (auto simp: completion_def split: sum.splits)
    next
      case response: (Inr response)
      from answered_completion [OF response] transcribed response assms(3,4) calls emitted
      show ?thesis by (auto split: sum.splits)
    qed
  qed
qed

lemma text_rejection:
  assumes "call \<in> set (new_calls w (handleTextMessage env c u w))"
    and "rejection env call = Some e"
  shows "last (new_calls w (handleTextMessage env c u w)) = call \<and>
         last (emitted (handleTextMessage env c u w)) =
           (c, ProcessingError (str ''Failed to generate response'') (error_message e))"
proof -
  note calls = new_calls_append [OF handleTextMessage_calls [of env c u w]]
  note emitted = handleTextMessage_emitted [of env c u w]
  show ?thesis
  proof (cases "completion env (chat_params (getHistory w c @ [user_turn u]))")
    case (Inl e2)
    with assms calls emitted show ?thesis
      by (auto simp: completion_def split: sum.splits)
  next
    case response: (Inr response)
    from answered_completion [OF response] response assms calls emitted
    show ?thesis by (auto split: sum.splits)
  qed
qed

lemma start_rejection:
  assumes "call \<in> set (new_calls w (handleStartInterview env c w))"
    and "rejection env call = Some e"
  shows "last (new_calls w (handleStartInterview env c w)) = call \<and>
         last (emitted (handleStartInterview env c w)) =
           (c, ProcessingError (str ''Failed to start interview'') (error_message e))"
proof -
  note calls = new_calls_append [OF handleStartInterview_calls [of env c w]]
  note emitted = handleStartInterview_emitted [of env c w]
  show ?thesis
  proof (cases "completion env (chat_params [user_turn opening_instruction])")
    case (Inl e2)
    with assms calls emitted show ?thesis
      by (auto simp: completion_def split: sum.splits)
  next
    case greeting: (Inr greeting)
    from answered_completion [OF greeting] greeting assms calls emitted
    show ?thesis by (auto split: sum.splits)
  qed
qed

lemma end_rejection:
  assumes "call \<in> set (new_calls w (handleEndInterview env c w))"
    and "rejection env call = Some e"
  shows "last (new_calls w (handleEndInterview env c w)) = call \<and>
         last (emitted (handleEndInterview env c w)) = (c, EvaluationError msg_evaluation_failed)"
proof -
  note calls = new_calls_append [OF handleEndInterview_calls [of env c w]]
  note emitted = handleEndInterview_emitted [of env c w]
  from assms calls emitted show ?thesis
    by (auto simp: completion_def split: if_splits sum.splits)
qed

lemma handlers_call_once:
  "distinct (map provider_of (new_calls w (handleTextMessage env c u w)))"
  "distinct (map provider_of (new_calls w (handleStartInterview env c w)))"
  "distinct (map provider_of (new_calls w (handleEndInterview env c w)))"
  by (simp_all add: new_calls_append [OF handleTextMessage_calls]
      new_calls_append [OF handleStartInterview_calls]
      new_calls_append [OF handleEndInterview_calls] split: sum.splits)

lemma audio_calls_once:
  "distinct (map provider_of (new_calls w (handleAudioComplete env c w)))"
proof (cases "audioBuffers w c")
  case None
  then show ?thesis by (simp add: handleAudioComplete_def new_calls_def)
next
  case (Some buffer)
  show ?thesis
  proof (cases "buffer = []")
    case True
    with Some show ?thesis by (simp add: handleAudioComplete_def new_calls_def)
  next
    case False
    from new_calls_append [OF handleAudioComplete_calls [OF Some False, of env]]
    show ?thesis by (auto split: sum.splits)
  qed
qed

text \<open>
  C7, as the claim states it, fails for the evaluation: the \<open>evaluation-error\<close> emitted
  after a rejected provider call holds the fixed text of \<open>handleEndInterview\<close>, not the
  message of the provider.
\<close>

theorem evaluation_error_message_counterexample:
  "new_calls world_talked (handleEndInterview env_claude_down client_a world_talked) =
     [MessagesCreate (evaluation_params sample_history)] \<and>
   rejection env_claude_down (MessagesCreate (evaluation_params sample_history)) =
     Some (Error (str ''529 overloaded'')) \<and>
   new_events world_talked (handleEndInterview env_claude_down client_a world_talked) =
     [(client_a, EvaluationError msg_evaluation_failed)] \<and>
   error_field (EvaluationError msg_evaluation_failed) \<noteq> Some (str ''529 overloaded'')"
proof -
  have history: "getHistory world_talked client_a = sample_history"
    by (simp add: getHistory_def world_talked_def world_start_def)
  have nonempty: "sample_history \<noteq> []"
    by (simp add: sample_history_def)
  have "msg_evaluation_failed \<noteq> str ''529 overloaded''"
    by (simp add: msg_evaluation_failed_def str_def)
  with history nonempty show ?thesis
    by (simp add: new_calls_append [OF handleEndInterview_calls]
        new_events_append [OF handleEndInterview_emitted]
        completion_def env_claude_down_def env_up_def)
qed

text \<open>
  C7, amended. When a provider rejects a call of a run, no call follows it, and the last
  event of the run is the error event: a \<open>processing-error\<close> whose \<open>error\<close> field is the
  message of the provider, in the audio, text and start-interview pipelines; an
  \<open>evaluation-error\<close> with the fixed text of the handler, without the message of the
  provider, in the evaluation. No run calls a provider twice.
\<close>

theorem provider_rejection_reported:
  "(audioBuffers w c = Some buffer \<and> buffer \<noteq> [] \<and>
    call \<in> set (new_calls w (handleAudioComplete env c w)) \<and> rejection env call = Some e \<longrightarrow>
      last (new_calls w (handleAudioComplete env c w)) = call \<and>
      last (emitted (handleAudioComplete env c w)) =
        (c, ProcessingError (str ''Failed to process audio'') (error_message e))) \<and>
   (call \<in> set (new_calls w (handleTextMessage env c u w)) \<and> rejection env call = Some e \<longrightarrow>
      last (new_calls w (handleTextMessage env c u w)) = call \<and>
      last (emitted (handleTextMessage env c u w)) =
        (c, ProcessingError (str ''Failed to generate response'') (error_message e))) \<and>
   (call \<in> set (new_calls w (handleStartInterview env c w)) \<and> rejection env call = Some e \<longrightarrow>
      last (new_calls w (handleStartInterview env c w)) = call \<and>
      last (emitted (handleStartInterview env c w)) =
        (c, ProcessingError (str ''Failed to start interview'') (error_message e))) \<and>
   (call \<in> set (new_calls w (handleEndInterview env c w)) \<and> rejection env call = Some e \<longrightarrow>
      last (new_calls w (handleEndInterview env c w)) = call \<and>
      last (emitted (handleEndInterview env c w)) = (c, EvaluationError msg_evaluation_failed)) \<and>
   distinct (map provider_of (new_calls w (handleAudioComplete env c w))) \<and>
   distinct (map provider_of (new_calls w (handleTextMessage env c u w))) \<and>
   distinct (map provider_of (new_calls w (handleStartInterview env c w))) \<and>
   distinct (map provider_of (new_calls w (handleEndInterview env c w)))"
  using audio_rejection [of w c buffer call env e] text_rejection [of call w env c u e]
    start_rejection [of call w env c e] end_rejection [of call w env c e]
    handlers_call_once [of w env c] audio_calls_once [of w env c]
  by blast

theorem provider_rejection_reported_witness:
  "last (emitted (handleAudioComplete env_whisper_down client_a world_listening)) =
     (client_a, ProcessingError (str ''Failed to process audio'') (str ''401 bad key'')) \<and>
   last (emitted (handleTextMessage env_tts_down client_a (str ''I like it'') world_talked)) =
     (client_a, ProcessingError (str ''Failed to generate response'') (str ''429 rate limit'')) \<and>
   last (emitted (handleStartInterview env_claude_down client_a world_start)) =
     (client_a, ProcessingError (str ''Failed to start interview'') (str ''529 overloaded'')) \<and>
   last (emitted (handleEndInterview env_claude_down client_a world_talked)) =
     (client_a, EvaluationError msg_evaluation_failed) \<and>
   new_calls world_talked (handleTextMessage env_tts_down client_a (str ''I like it'') world_talked) =
     [MessagesCreate (chat_params (sample_history @ [user_turn (str ''I like it'')])),
      SpeechCreate (str ''Why this role?'')]"
proof -
  have history: "getHistory world_talked client_a = sample_history"
    by (simp add: getHistory_def world_talked_def world_start_def)
  have nonempty: "sample_history \<noteq> []"
    by (simp add: sample_history_def)
  have audio: "last (emitted (handleAudioComplete env_whisper_down client_a world_listening)) =
     (client_a, ProcessingError (str ''Failed to process audio'') (str ''401 bad key''))"
    using provider_rejection_reported [where w = world_listening and c = client_a
        and buffer = "[[0x1A, 0x45], [0xDF]]" and env = env_whisper_down
        and call = "TranscriptionsCreate [0x1A, 0x45, 0xDF]" and e = "Error (str ''401 bad key'')"]
      world_listening_a
    by (simp add: new_calls_append [OF handleAudioComplete_calls [OF world_listening_a]]
        env_whisper_down_def env_up_def)
  have calls: "new_calls world_talked (handleTextMessage env_tts_down client_a (str ''I like it'') world_talked) =
     [MessagesCreate (chat_params (sample_history @ [user_turn (str ''I like it'')])),
      SpeechCreate (str ''Why this role?'')]"
    by (simp add: new_calls_append [OF handleTextMessage_calls] history completion_def
        env_tts_down_def env_up_def)
  have text_message: "last (emitted (handleTextMessage env_tts_down client_a (str ''I like it'') world_talked)) =
     (client_a, ProcessingError (str ''Failed to generate response'') (str ''429 rate limit''))"
    using provider_rejection_reported [where w = world_talked and c = client_a
        and u = "str ''I like it''" and env = env_tts_down
        and call = "SpeechCreate (str ''Why this role?'')" and e = "Error (str ''429 rate limit'')"]
      calls
    by (simp add: env_tts_down_def env_up_def)
  have start: "last (emitted (handleStartInterview env_claude_down client_a world_start)) =
     (client_a, ProcessingError (str ''Failed to start interview'') (str ''529 overloaded''))"
    using provider_rejection_reported [where w = world_start and c = client_a
        and env = env_claude_down
        and call = "MessagesCreate (chat_params [user_turn opening_instruction])"
        and e = "Error (str ''529 overloaded'')"]
    by (simp add: new_calls_append [OF handleStartInterview_calls] completion_def
        env_claude_down_def env_up_def)
  have evaluation: "last (emitted (handleEndInterview env_claude_down client_a world_talked)) =
     (client_a, EvaluationError msg_evaluation_failed)"
    using provider_rejection_reported [where w = world_talked and c = client_a
        and env = env_claude_down
        and call = "MessagesCreate (evaluation_params sample_history)"
        and e = "Error (str ''529 overloaded'')"]
      history nonempty
    by (simp add: new_calls_append [OF handleEndInterview_calls]
        env_claude_down_def env_up_def)
  from audio calls text_message start evaluation show ?thesis by simp
qed

section \<open>Evaluating an empty history\<close>

text \<open>
  C1, as the claim states it, fails: \<open>evaluateCandidate\<close> does not look at the length of
  the history. Called with an empty history in an environment whose provider answers, it
  returns a record (here the fallback record with its time stamp) and stores it.
\<close>

theorem evaluate_empty_history_counterexample:
  "fst (evaluateCandidate env_up client_a [] world_start) =
     Inr (JObj (own_properties fallback @
                [(str ''evaluatedAt'', JStr (str ''2023-11-14T22:13:20.000Z''))])) \<and>
   evaluations (snd (evaluateCandidate env_up client_a [] world_start)) client_a =
     Some (JObj (own_properties fallback @
                 [(str ''evaluatedAt'', JStr (str ''2023-11-14T22:13:20.000Z''))]))"
proof -
  have "parseEvaluation (str ''Why this role?'') = fallback"
    by (simp add: parseEvaluation_def parseEvaluation_try_def str_def)
  then show ?thesis
    by (simp add: evaluateCandidate_eq Let_def completion_def env_up_def sample_clock_def
        fallback_def str_def)
qed

text \<open>
  C1, amended. The empty history is refused by \<open>handleEndInterview\<close>, before
  \<open>evaluateCandidate\<close> is called: the handler emits an \<open>evaluation-error\<close>, calls no
  provider and stores no record. \<open>evaluateCandidate\<close> itself, on an empty history, rejects
  when the completion fails, and stores nothing then; when the completion succeeds it
  returns a record and stores it under the identifier.
\<close>

theorem empty_history_refused_by_handler:
  "(getHistory w client = [] \<longrightarrow>
      emitted (handleEndInterview env client w) =
        emitted w @ [(client, EvaluationError msg_no_history)] \<and>
      calls (handleEndInterview env client w) = calls w \<and>
      evaluations (handleEndInterview env client w) = evaluations w) \<and>
   (completion env (evaluation_params []) = Inl e \<longrightarrow>
      fst (evaluateCandidate env client [] w) = Inl (Error msg_evaluation_failed) \<and>
      evaluations (snd (evaluateCandidate env client [] w)) = evaluations w) \<and>
   (completion env (evaluation_params []) = Inr reply \<longrightarrow>
      fst (evaluateCandidate env client [] w) =
        Inr (JObj (set_property (str ''evaluatedAt'')
                     (JStr (isoString (clock env (clock_reads w))))
                     (own_properties (parseEvaluation reply)))) \<and>
      evaluations (snd (evaluateCandidate env client [] w)) client =
        Some (JObj (set_property (str ''evaluatedAt'')
                      (JStr (isoString (clock env (clock_reads w))))
                      (own_properties (parseEvaluation reply)))))"
  by (simp add: handleEndInterview_def emit_def evaluateCandidate_eq Let_def)

theorem empty_history_refused_by_handler_witness:
  "getHistory world_start client_a = [] \<and>
   emitted (handleEndInterview env_up client_a world_start) =
     [(client_a, EvaluationError msg_no_history)] \<and>
   calls (handleEndInterview env_up client_a world_start) = [] \<and>
   evaluations (handleEndInterview env_up client_a world_start) client_a = None \<and>
   fst (evaluateCandidate env_claude_down client_a [] world_start) =
     Inl (Error msg_evaluation_failed) \<and>
   evaluations (snd (evaluateCandidate env_claude_down client_a [] world_start)) client_a = None \<and>
   evaluations (snd (evaluateCandidate env_up client_a [] world_start)) client_a =
     Some (JObj (own_properties fallback @
                 [(str ''evaluatedAt'', JStr (str ''2023-11-14T22:13:20.000Z''))]))"
proof -
  have empty: "getHistory world_start client_a = []"
    by (simp add: getHistory_def world_start_def)
  have down: "completion env_claude_down (evaluation_params []) = Inl (Error (str ''529 overloaded''))"
    by (simp add: completion_def env_claude_down_def env_up_def)
  have fallback_reply: "parseEvaluation (str ''Why this role?'') = fallback"
    by (simp add: parseEvaluation_def parseEvaluation_try_def str_def)
  have up: "completion env_up (evaluation_params []) = Inr (str ''Why this role?'')"
    by (simp add: completion_def env_up_def)
  from empty_history_refused_by_handler [of world_start client_a env_up]
    empty_history_refused_by_handler [of world_start client_a env_claude_down "Error (str ''529 overloaded'')"]
    empty_history_refused_by_handler [of world_start client_a env_up _ "str ''Why this role?''"]
    empty down up fallback_reply
  show ?thesis
    by (simp add: world_start_def env_up_def sample_clock_def fallback_def str_def)
qed

section \<open>\<open>parseEvaluation\<close>\<close>

lemmas json_eval =
  JSON_parse_def str_def is_ws_def is_digit_def cons_token_def number_literal_def
  is_number_char_def digits_value_def scale10_def all_digits_def

lemma parseEvaluation_accepts:
  "parseEvaluation_try reply =
     (case brace_block reply of
        None \<Rightarrow> Inl (Error msg_no_json)
      | Some block \<Rightarrow>
          (case JSON_parse block of
             None \<Rightarrow> Inl (Error msg_syntax_error)
           | Some parsed \<Rightarrow>
               if truthy (own_field parsed (str ''scores'')) \<and>
                  truthy (own_field parsed (str ''comments''))
               then Inr parsed
               else (case parsed of
                       JNull \<Rightarrow> Inl (Error (msg_cannot_read ''null'' (str ''scores'')))
                     | _ \<Rightarrow> Inl (Error msg_incomplete))))"
proof (cases "brace_block reply")
  case None
  then show ?thesis by (simp add: parseEvaluation_try_def regex_match_brace_block)
next
  case block: (Some block)
  show ?thesis
  proof (cases "JSON_parse block")
    case None
    with block show ?thesis by (simp add: parseEvaluation_try_def regex_match_brace_block)
  next
    case (Some parsed)
    with block show ?thesis
      by (cases parsed)
        (simp_all add: parseEvaluation_try_def regex_match_brace_block own_field_def)
  qed
qed

lemma parseEvaluation_object: "\<exists>kvs. parseEvaluation reply = JObj kvs"
proof (cases "parseEvaluation_try reply")
  case (Inl e)
  then show ?thesis by (simp add: parseEvaluation_def fallback_def)
next
  case (Inr parsed)
  then have "truthy (own_field parsed (str ''scores''))"
    by (simp add: parseEvaluation_accepts split: option.splits if_splits jsvalue.splits)
  then obtain kvs where "parsed = JObj kvs"
    by (cases parsed) (simp_all add: own_field_def)
  with Inr show ?thesis by (simp add: parseEvaluation_def)
qed

lemma zero_scores_parsed:
  "JSON_parse reply_zero_scores =
     Some (JObj [(str ''scores'', JNum 0), (str ''comments'', JStr (str ''ok''))])"
  by (simp add: reply_zero_scores_def json_eval)

lemma zero_scores_block: "brace_block reply_zero_scores = Some reply_zero_scores"
  by (simp add: reply_zero_scores_def str_def brace_block_def first_index_def last_index_def)

text \<open>
  C2, as the claim states it, fails: a block that parses and holds both fields is not
  returned when the value of a field is falsy. Here \<open>scores\<close> is the number 0, and the
  result is the fallback record.
\<close>

theorem parseEvaluation_zero_scores_counterexample:
  "brace_block reply_zero_scores = Some reply_zero_scores \<and>
   JSON_parse reply_zero_scores =
     Some (JObj [(str ''scores'', JNum 0), (str ''comments'', JStr (str ''ok''))]) \<and>
   own_field (JObj [(str ''scores'', JNum 0), (str ''comments'', JStr (str ''ok''))]) (str ''scores'')
     = Some (JNum 0) \<and>
   own_field (JObj [(str ''scores'', JNum 0), (str ''comments'', JStr (str ''ok''))]) (str ''comments'')
     = Some (JStr (str ''ok'')) \<and>
   parseEvaluation reply_zero_scores = fallback \<and>
   fallback \<noteq> JObj [(str ''scores'', JNum 0), (str ''comments'', JStr (str ''ok''))]"
proof -
  have "parseEvaluation reply_zero_scores = fallback"
    by (simp add: parseEvaluation_def parseEvaluation_accepts zero_scores_block zero_scores_parsed
        own_field_def str_def)
  moreover have "fallback \<noteq> JObj [(str ''scores'', JNum 0), (str ''comments'', JStr (str ''ok''))]"
    by (simp add: fallback_def)
  ultimately show ?thesis
    using zero_scores_block zero_scores_parsed by (simp add: own_field_def str_def)
qed

text \<open>
  C2, amended. \<open>parseEvaluation\<close> returns the parsed data, unchanged, when the substring
  from the first \<open>{\<close> through the last \<open>}\<close> exists, parses, and has a \<open>scores\<close> field and
  a \<open>comments\<close> field whose values are both truthy (neither \<open>null\<close>, \<open>false\<close>, 0 nor the
  empty string). In every other case it returns the fallback record: five scores of 5,
  the one fixed strength, no improvements, the fixed summary. It throws nothing.
\<close>

theorem parseEvaluation_result:
  "parseEvaluation reply =
     (case brace_block reply of
        None \<Rightarrow> fallback
      | Some block \<Rightarrow>
          (case JSON_parse block of
             None \<Rightarrow> fallback
           | Some parsed \<Rightarrow>
               if truthy (own_field parsed (str ''scores'')) \<and>
                  truthy (own_field parsed (str ''comments''))
               then parsed else fallback)) \<and>
   own_field fallback (str ''scores'') =
     Some (JObj [(str ''communication'', JNum 5), (str ''technical'', JNum 5),
                 (str ''motivation'', JNum 5), (str ''problemSolving'', JNum 5),
                 (str ''overall'', JNum 5)]) \<and>
   own_field fallback (str ''comments'') =
     Some (JObj [(str ''strengths'', JArr [JStr msg_fallback_strength]),
                 (str ''improvements'', JArr []),
                 (str ''summary'', JStr msg_fallback_summary)])"
proof -
  have "own_field fallback (str ''scores'') =
     Some (JObj [(str ''communication'', JNum 5), (str ''technical'', JNum 5),
                 (str ''motivation'', JNum 5), (str ''problemSolving'', JNum 5),
                 (str ''overall'', JNum 5)])"
    by (simp add: fallback_def own_field_def)
  moreover have "own_field fallback (str ''comments'') =
     Some (JObj [(str ''strengths'', JArr [JStr msg_fallback_strength]),
                 (str ''improvements'', JArr []),
                 (str ''summary'', JStr msg_fallback_summary)])"
    by (simp add: fallback_def own_field_def str_def)
  ultimately show ?thesis
    by (simp add: parseEvaluation_def parseEvaluation_accepts split: option.splits jsvalue.splits)
qed

theorem parseEvaluation_result_witness:
  "parseEvaluation reply_in_prose =
     JObj [(str ''scores'', JObj [(str ''overall'', JNum (15 / 2))]),
           (str ''comments'', JObj [(str ''summary'', JStr (str ''ok''))])] \<and>
   parseEvaluation reply_no_block = fallback \<and>
   parseEvaluation reply_unclosed = fallback \<and>
   parseEvaluation reply_bad_json = fallback \<and>
   parseEvaluation reply_no_comments = fallback"
proof -
  have block: "brace_block reply_in_prose = Some block_in_prose"
    by (simp add: reply_in_prose_def block_in_prose_def str_def brace_block_def
        first_index_def last_index_def)
  have parsed: "JSON_parse block_in_prose =
      Some (JObj [(str ''scores'', JObj [(str ''overall'', JNum (15 / 2))]),
                  (str ''comments'', JObj [(str ''summary'', JStr (str ''ok''))])])"
    by (simp add: block_in_prose_def json_eval)
  have 1: "parseEvaluation reply_in_prose =
     JObj [(str ''scores'', JObj [(str ''overall'', JNum (15 / 2))]),
           (str ''comments'', JObj [(str ''summary'', JStr (str ''ok''))])]"
    using parseEvaluation_result [of reply_in_prose] block parsed
    by (simp add: own_field_def str_def)
  have 2: "parseEvaluation reply_no_block = fallback"
    using parseEvaluation_result [of reply_no_block]
    by (simp add: reply_no_block_def str_def brace_block_def first_index_def last_index_def)
  have 3: "parseEvaluation reply_unclosed = fallback"
    using parseEvaluation_result [of reply_unclosed]
    by (simp add: reply_unclosed_def brace_block_def first_index_def last_index_def json_eval)
  have 4: "parseEvaluation reply_bad_json = fallback"
    using parseEvaluation_result [of reply_bad_json]
    by (simp add: reply_bad_json_def brace_block_def first_index_def last_index_def json_eval)
  have 5: "parseEvaluation reply_no_comments = fallback"
    using parseEvaluation_result [of reply_no_comments]
    by (simp add: reply_no_comments_def brace_block_def first_index_def last_index_def json_eval
        own_field_def)
  from 1 2 3 4 5 show ?thesis by simp
qed





end
